theory Spec2Isabelle
  imports Main "HOL-Library.Word"
begin

section \<open>Kubernetes API types used by the operators\<close>

text \<open>
  \<open>metav1.Time\<close> is a point in time; it is modelled as a natural number of clock ticks,
  with \<open>0\<close> standing for Go's zero time. \<open>metav1.Now()\<close> is the parameter \<open>now\<close> of
  every function that reads the clock. \<open>time.Duration\<close> is a signed 64-bit count of
  nanoseconds.
\<close>

type_synonym Time = nat
type_synonym int32 = "32 word"
type_synonym int64 = "64 word"
type_synonym Duration = "64 word"

definition Second :: Duration where
  "Second = 1000000000"

definition Minute :: Duration where
  "Minute = 60 * Second"

text \<open>\<open>metav1.Condition\<close>; \<open>metav1.ConditionStatus\<close> is a string type.\<close>

record Condition =
  Type :: string
  Status :: string
  Reason :: string
  Message :: string
  LastTransitionTime :: Time

definition ConditionTrue :: string where
  "ConditionTrue = ''True''"

definition ConditionFalse :: string where
  "ConditionFalse = ''False''"

text \<open>
  \<open>metav1.ObjectMeta\<close>, with the fields the controllers read or write. A Go map may be
  \<open>nil\<close>, which is \<open>None\<close> here; reading a key of a nil map gives "absent".
\<close>

record ObjectMeta =
  Name :: string
  Namespace :: string
  Generation :: int64
  DeletionTimestamp :: "Time option"
  Finalizers :: "string list"
  Labels :: "(string \<rightharpoonup> string) option"
  Annotations :: "(string \<rightharpoonup> string) option"

text \<open>
  Every custom resource of the repository has the same layout: embedded object metadata,
  a \<open>Spec\<close> and a \<open>Status\<close>.
\<close>

record ('sp, 'st) Resource =
  metadata :: ObjectMeta
  spec :: 'sp
  status :: 'st

text \<open>\<open>types.NamespacedName\<close>; a \<open>ctrl.Request\<close> carries exactly one.\<close>

datatype NamespacedName = NamespacedName (nn_Namespace: string) (nn_Name: string)

type_synonym Request = NamespacedName

definition key_of :: "('sp, 'st) Resource \<Rightarrow> NamespacedName" where
  "key_of obj = NamespacedName (Namespace (metadata obj)) (Name (metadata obj))"

text \<open>\<open>(*metav1.Time).IsZero\<close>: a nil pointer or the zero time.\<close>

fun IsZero :: "Time option \<Rightarrow> bool" where
  "IsZero None = True"
| "IsZero (Some t) = (t = 0)"

section \<open>The custom resources\<close>

text \<open>\<open>MyResource\<close> (patterns/crd.go).\<close>

record MyResourceSpec =
  Replicas :: int32
  Image :: string
  ConfigMapName :: string
  Parameters :: "(string \<rightharpoonup> string) option"

record MyResourceStatus =
  Conditions :: "Condition list"
  ObservedGeneration :: int64
  ReadyReplicas :: int32
  LastUpdated :: "Time option"

type_synonym MyResource = "(MyResourceSpec, MyResourceStatus) Resource"

text \<open>\<open>Database\<close> (examples/database-operator, api/v1).\<close>

record DatabaseSpec =
  Replicas :: int32
  Image :: string
  Storage :: int32
  DatabaseName :: string
  UserName :: string
  PasswordSecretName :: string
  ConfigMapName :: string
  ServiceType :: string
  StorageClass :: string

record DatabaseStatus =
  Phase :: string
  ReadyReplicas :: int32
  ObservedGeneration :: int64
  Conditions :: "Condition list"
  ServiceName :: string
  DeploymentName :: string

type_synonym Database = "(DatabaseSpec, DatabaseStatus) Resource"

text \<open>\<open>Cocktail\<close> (examples/simple-operator, api/v1).\<close>

record CocktailSpec =
  Size :: int32
  Recipe :: string
  Garnish :: bool
  Instructions :: string

record CocktailStatus =
  Phase :: string
  ServingsReady :: int32
  LastPrepared :: "Time option"
  Conditions :: "Condition list"

type_synonym Cocktail = "(CocktailSpec, CocktailStatus) Resource"

section \<open>Conditions: \<open>SetCondition\<close>, \<open>GetCondition\<close>, \<open>IsReady\<close>\<close>

text \<open>
  \<open>MyResource.SetCondition\<close> (patterns/crd.go), \<open>Database.SetCondition\<close> and
  \<open>Cocktail.SetCondition\<close> have the same body. Its loop over \<open>Status.Conditions\<close> is
  \<open>SetCondition_loop\<close>: it returns the list after the loop and the flag \<open>found\<close>.
  The loop variable \<open>condition\<close> is a copy of the element, so the assignment to
  \<open>condition.LastTransitionTime\<close> does not reach the list: the element is overwritten
  with \<open>newCondition\<close>.
\<close>

fun SetCondition_loop :: "Condition \<Rightarrow> Condition list \<Rightarrow> Condition list \<times> bool" where
  "SetCondition_loop newCondition [] = ([], False)"
| "SetCondition_loop newCondition (condition # rest) =
     (if Type condition = Type newCondition then
        (let condition =
               (if Status condition \<noteq> Status newCondition
                then condition\<lparr>LastTransitionTime := LastTransitionTime newCondition\<rparr>
                else condition)
         in (newCondition # rest, True))
      else
        (case SetCondition_loop newCondition rest of
           (rest', found) \<Rightarrow> (condition # rest', found)))"

definition SetCondition ::
  "Time \<Rightarrow> Condition list \<Rightarrow> string \<Rightarrow> string \<Rightarrow> string \<Rightarrow> string \<Rightarrow> Condition list" where
  "SetCondition now conditions conditionType st reason message =
     (let newCondition = \<lparr>Type = conditionType, Status = st, Reason = reason,
                           Message = message, LastTransitionTime = now\<rparr>
      in case SetCondition_loop newCondition conditions of
           (conditions', found) \<Rightarrow>
             if \<not> found then conditions' @ [newCondition] else conditions')"

text \<open>\<open>GetCondition\<close>: the first condition of the given type, or nil.\<close>

definition GetCondition :: "Condition list \<Rightarrow> string \<Rightarrow> Condition option" where
  "GetCondition conditions conditionType = find (\<lambda>c. Type c = conditionType) conditions"

definition IsReady :: "Condition list \<Rightarrow> bool" where
  "IsReady conditions =
     (case GetCondition conditions ''Ready'' of
        Some condition \<Rightarrow> Status condition = ConditionTrue
      | None \<Rightarrow> False)"

text \<open>The three methods, each on its own resource type.\<close>

definition MyResource_SetCondition ::
  "Time \<Rightarrow> MyResource \<Rightarrow> string \<Rightarrow> string \<Rightarrow> string \<Rightarrow> string \<Rightarrow> MyResource" where
  "MyResource_SetCondition now r conditionType st reason message =
     r\<lparr>status := (status r)\<lparr>MyResourceStatus.Conditions :=
        SetCondition now (MyResourceStatus.Conditions (status r)) conditionType st reason message\<rparr>\<rparr>"

definition Database_SetCondition ::
  "Time \<Rightarrow> Database \<Rightarrow> string \<Rightarrow> string \<Rightarrow> string \<Rightarrow> string \<Rightarrow> Database" where
  "Database_SetCondition now d conditionType st reason message =
     d\<lparr>status := (status d)\<lparr>DatabaseStatus.Conditions :=
        SetCondition now (DatabaseStatus.Conditions (status d)) conditionType st reason message\<rparr>\<rparr>"

definition Cocktail_SetCondition ::
  "Time \<Rightarrow> Cocktail \<Rightarrow> string \<Rightarrow> string \<Rightarrow> string \<Rightarrow> string \<Rightarrow> Cocktail" where
  "Cocktail_SetCondition now c conditionType st reason message =
     c\<lparr>status := (status c)\<lparr>CocktailStatus.Conditions :=
        SetCondition now (CocktailStatus.Conditions (status c)) conditionType st reason message\<rparr>\<rparr>"

definition MyResource_IsReady :: "MyResource \<Rightarrow> bool" where
  "MyResource_IsReady r = IsReady (MyResourceStatus.Conditions (status r))"

definition Database_IsReady :: "Database \<Rightarrow> bool" where
  "Database_IsReady d = IsReady (DatabaseStatus.Conditions (status d))"


section \<open>Errors and reconcile results\<close>

text \<open>
  API errors, as far as the controllers tell them apart: \<open>errors.IsNotFound\<close> is the only
  test they make. \<open>Wrapped\<close> is \<open>fmt.Errorf("...: %w", err)\<close>.
\<close>

datatype error = NotFound | Conflict | Failure string | Wrapped string error

fun IsNotFound :: "error \<Rightarrow> bool" where
  "IsNotFound NotFound = True"
| "IsNotFound _ = False"

text \<open>\<open>client.IgnoreNotFound\<close>.\<close>

definition IgnoreNotFound :: "error \<Rightarrow> error option" where
  "IgnoreNotFound err = (if IsNotFound err then None else Some err)"

text \<open>\<open>err.Error()\<close>.\<close>

fun Error :: "error \<Rightarrow> string" where
  "Error NotFound = ''not found''"
| "Error Conflict = ''conflict''"
| "Error (Failure msg) = msg"
| "Error (Wrapped prefix err) = prefix @ '': '' @ Error err"

text \<open>\<open>ctrl.Result\<close>; a reconcile call returns a result and an error, nil being \<open>None\<close>.\<close>

record Result =
  Requeue :: bool
  RequeueAfter :: Duration

definition Result_empty :: Result where
  "Result_empty = \<lparr>Requeue = False, RequeueAfter = 0\<rparr>"

type_synonym outcome = "Result \<times> error option"

section \<open>The API client\<close>

text \<open>
  The controllers reach the cluster through \<open>client.Client\<close>. The cluster is the state
  that every controller function takes and returns:
  \<^item> \<open>objects\<close>: the stored objects of the controller's own kind; an object is found by
    its namespaced name, the first entry with that name being the object;
  \<^item> \<open>deployments\<close>: \<open>status.readyReplicas\<close> of the Deployments that exist;
  \<^item> \<open>faults\<close>: what the API server answers to the \<open>i\<close>-th request of the client,
    \<open>None\<close> for "served" and \<open>Some err\<close> for a failed request; any pattern of failing
    requests is one such function;
  \<^item> \<open>calls\<close>: the requests made so far, in order;
  \<^item> \<open>events\<close>: what was handed to the event recorder.

  All three resources enable the status subresource, so \<open>Update\<close> stores metadata and
  spec and leaves the stored status, and \<open>Status().Update\<close> stores the status only.

  The API server holds no terminating object without finalizers: a served \<open>Update\<close>
  that leaves an object with a deletion timestamp and an empty list of finalizers
  erases the object instead of storing it.
\<close>

datatype ('sp, 'st) call =
    CallGet NamespacedName
  | CallUpdate "('sp, 'st) Resource"
  | CallStatusUpdate "('sp, 'st) Resource"
  | CallList string
  | CallCreateOrPatch string NamespacedName
  | CallGetDeployment NamespacedName

record ('sp, 'st) Client =
  objects :: "('sp, 'st) Resource list"
  deployments :: "NamespacedName \<rightharpoonup> int32"
  faults :: "nat \<Rightarrow> error option"
  calls :: "('sp, 'st) call list"
  events :: "(string \<times> string \<times> string) list"

record Deployment =
  dep_Name :: string
  dep_ReadyReplicas :: int32

definition issue ::
  "('sp, 'st) call \<Rightarrow> ('sp, 'st) Client \<Rightarrow> error option \<times> ('sp, 'st) Client" where
  "issue cl c = (faults c (length (calls c)), c\<lparr>calls := calls c @ [cl]\<rparr>)"

definition lookup :: "NamespacedName \<Rightarrow> ('sp, 'st) Resource list \<Rightarrow> ('sp, 'st) Resource option" where
  "lookup k objs = find (\<lambda>obj. key_of obj = k) objs"

fun store :: "NamespacedName \<Rightarrow> (('sp, 'st) Resource \<Rightarrow> ('sp, 'st) Resource) \<Rightarrow>
    ('sp, 'st) Resource list \<Rightarrow> ('sp, 'st) Resource list" where
  "store k f [] = []"
| "store k f (obj # objs) = (if key_of obj = k then f obj # objs else obj # store k f objs)"

text \<open>Names are unique in a cluster: erasing a name leaves no entry with it.\<close>

definition erase :: "NamespacedName \<Rightarrow> ('sp, 'st) Resource list \<Rightarrow> ('sp, 'st) Resource list" where
  "erase k objs = filter (\<lambda>obj. key_of obj \<noteq> k) objs"

definition client_Get ::
  "NamespacedName \<Rightarrow> ('sp, 'st) Client \<Rightarrow> (error + ('sp, 'st) Resource) \<times> ('sp, 'st) Client" where
  "client_Get k c =
     (case issue (CallGet k) c of
        (Some err, c') \<Rightarrow> (Inl err, c')
      | (None, c') \<Rightarrow>
          (case lookup k (objects c') of
             None \<Rightarrow> (Inl NotFound, c')
           | Some obj \<Rightarrow> (Inr obj, c')))"

definition client_Update ::
  "('sp, 'st) Resource \<Rightarrow> ('sp, 'st) Client \<Rightarrow> error option \<times> ('sp, 'st) Client" where
  "client_Update obj c =
     (case issue (CallUpdate obj) c of
        (Some err, c') \<Rightarrow> (Some err, c')
      | (None, c') \<Rightarrow>
          (case lookup (key_of obj) (objects c') of
             None \<Rightarrow> (Some NotFound, c')
           | Some _ \<Rightarrow>
               (None, c'\<lparr>objects :=
                  (if \<not> IsZero (DeletionTimestamp (metadata obj)) \<and> Finalizers (metadata obj) = []
                   then erase (key_of obj) (objects c')
                   else store (key_of obj) (\<lambda>stored. obj\<lparr>status := status stored\<rparr>)
                          (objects c'))\<rparr>)))"

definition client_Status_Update ::
  "('sp, 'st) Resource \<Rightarrow> ('sp, 'st) Client \<Rightarrow> error option \<times> ('sp, 'st) Client" where
  "client_Status_Update obj c =
     (case issue (CallStatusUpdate obj) c of
        (Some err, c') \<Rightarrow> (Some err, c')
      | (None, c') \<Rightarrow>
          (case lookup (key_of obj) (objects c') of
             None \<Rightarrow> (Some NotFound, c')
           | Some _ \<Rightarrow>
               (None, c'\<lparr>objects :=
                  store (key_of obj) (\<lambda>stored. stored\<lparr>status := status obj\<rparr>) (objects c')\<rparr>)))"

text \<open>\<open>r.List(ctx, &list, client.InNamespace(ns))\<close>.\<close>

definition client_List ::
  "string \<Rightarrow> ('sp, 'st) Client \<Rightarrow> (error + ('sp, 'st) Resource list) \<times> ('sp, 'st) Client" where
  "client_List ns c =
     (case issue (CallList ns) c of
        (Some err, c') \<Rightarrow> (Inl err, c')
      | (None, c') \<Rightarrow> (Inr (filter (\<lambda>obj. Namespace (metadata obj) = ns) (objects c')), c'))"

text \<open>
  \<open>controllerutil.CreateOrPatch\<close> on an owned object of the given kind: it fails or it
  succeeds; a Deployment that did not exist is created with no ready replica.
\<close>

definition CreateOrPatch ::
  "string \<Rightarrow> NamespacedName \<Rightarrow> ('sp, 'st) Client \<Rightarrow> error option \<times> ('sp, 'st) Client" where
  "CreateOrPatch kind k c =
     (case issue (CallCreateOrPatch kind k) c of
        (Some err, c') \<Rightarrow> (Some err, c')
      | (None, c') \<Rightarrow>
          (None,
           if kind = ''Deployment''
           then c'\<lparr>deployments := (deployments c')
                  (k \<mapsto> (case deployments c' k of None \<Rightarrow> 0 | Some ready \<Rightarrow> ready))\<rparr>
           else c'))"

definition client_Get_Deployment ::
  "NamespacedName \<Rightarrow> ('sp, 'st) Client \<Rightarrow> (error + Deployment) \<times> ('sp, 'st) Client" where
  "client_Get_Deployment k c =
     (case issue (CallGetDeployment k) c of
        (Some err, c') \<Rightarrow> (Inl err, c')
      | (None, c') \<Rightarrow>
          (case deployments c' k of
             None \<Rightarrow> (Inl NotFound, c')
           | Some ready \<Rightarrow> (Inr \<lparr>dep_Name = nn_Name k, dep_ReadyReplicas = ready\<rparr>, c')))"

text \<open>\<open>r.Recorder.Event(instance, eventtype, reason, message)\<close>.\<close>

definition Recorder_Event ::
  "string \<Rightarrow> string \<Rightarrow> string \<Rightarrow> ('sp, 'st) Client \<Rightarrow> ('sp, 'st) Client" where
  "Recorder_Event eventtype reason message c =
     c\<lparr>events := events c @ [(eventtype, reason, message)]\<rparr>"

section \<open>Finalizer helpers of \<open>controllerutil\<close>\<close>

definition ContainsFinalizer :: "('sp, 'st) Resource \<Rightarrow> string \<Rightarrow> bool" where
  "ContainsFinalizer obj finalizer \<longleftrightarrow> finalizer \<in> set (Finalizers (metadata obj))"

definition AddFinalizer :: "('sp, 'st) Resource \<Rightarrow> string \<Rightarrow> ('sp, 'st) Resource" where
  "AddFinalizer obj finalizer =
     (if finalizer \<in> set (Finalizers (metadata obj)) then obj
      else obj\<lparr>metadata := (metadata obj)\<lparr>Finalizers := Finalizers (metadata obj) @ [finalizer]\<rparr>\<rparr>)"

definition RemoveFinalizer :: "('sp, 'st) Resource \<Rightarrow> string \<Rightarrow> ('sp, 'st) Resource" where
  "RemoveFinalizer obj finalizer =
     obj\<lparr>metadata := (metadata obj)\<lparr>Finalizers :=
       filter (\<lambda>f. f \<noteq> finalizer) (Finalizers (metadata obj))\<rparr>\<rparr>"

section \<open>Decimal text of integers (\<open>fmt\<close>)\<close>

text \<open>
  Integers are written with \<open>fmt.Sprintf("%d", n)\<close> and read back with
  \<open>fmt.Sscanf(rc, "%d", &n)\<close>. Strings are sequences of bytes.
  \<open>Sprintf_d\<close> prints a signed 64-bit integer. \<open>Sscanf_d\<close> discards the blanks in front
  of the number, then reads an optional sign and the decimal digits that follow; it
  stores nothing (\<open>None\<close>) when a newline comes before the number, when there is no
  digit or when the number does not fit 64 bits, and it ignores what follows the digits.
\<close>

definition digit_char :: "nat \<Rightarrow> char" where
  "digit_char d = char_of (48 + d)"

fun decimal :: "nat \<Rightarrow> string" where
  "decimal n = (if n < 10 then [digit_char n] else decimal (n div 10) @ [digit_char (n mod 10)])"

declare decimal.simps [simp del]

definition Sprintf_d :: "int64 \<Rightarrow> string" where
  "Sprintf_d n =
     (if sint n < 0 then CHR ''-'' # decimal (nat (- sint n)) else decimal (nat (sint n)))"

definition is_digit :: "char \<Rightarrow> bool" where
  "is_digit ch \<longleftrightarrow> 48 \<le> (of_char ch :: nat) \<and> (of_char ch :: nat) \<le> 57"

definition digit_value :: "char \<Rightarrow> nat" where
  "digit_value ch = of_char ch - 48"

definition number :: "string \<Rightarrow> nat" where
  "number ds = foldl (\<lambda>acc ch. 10 * acc + digit_value ch) 0 ds"

text \<open>
  The blanks that \<open>Sscanf\<close> discards are the space characters of Unicode, in their
  UTF-8 encoding: U+0009 to U+000D, U+0020, U+0085, U+00A0, U+1680, U+2000 to U+200A,
  U+2028, U+2029, U+202F, U+205F and U+3000. \<open>space_width\<close> is the number of bytes of
  the space character at the head of a string, 0 when there is none.
\<close>

definition space_width :: "string \<Rightarrow> nat" where
  "space_width s =
     (case map (of_char :: char \<Rightarrow> nat) (take 3 s) of
        [] \<Rightarrow> 0
      | b0 # bs \<Rightarrow>
          if (9 \<le> b0 \<and> b0 \<le> 13) \<or> b0 = 32 then 1
          else if b0 = 194 \<and> (case bs of [] \<Rightarrow> False | b1 # _ \<Rightarrow> b1 = 133 \<or> b1 = 160) then 2
          else if (case bs of
                     [b1, b2] \<Rightarrow>
                       (b0 = 225 \<and> b1 = 154 \<and> b2 = 128) \<or>
                       (b0 = 226 \<and> b1 = 128 \<and>
                          ((128 \<le> b2 \<and> b2 \<le> 138) \<or> b2 = 168 \<or> b2 = 169 \<or> b2 = 175)) \<or>
                       (b0 = 226 \<and> b1 = 129 \<and> b2 = 159) \<or>
                       (b0 = 227 \<and> b1 = 128 \<and> b2 = 128)
                   | _ \<Rightarrow> False) then 3
          else 0)"

text \<open>
  \<open>SkipSpace\<close> of a scan made by \<open>Sscanf\<close>: a newline is not a blank there, it ends the
  scan with the error "unexpected newline" (\<open>None\<close>).
\<close>

function SkipSpace :: "string \<Rightarrow> string option" where
  "SkipSpace s =
     (if s = [] then Some s
      else if hd s = CHR 0x0A then None
      else if space_width s = 0 then Some s
      else SkipSpace (drop (space_width s) s))"
  by pat_completeness auto

termination
  by (relation "measure length") (auto simp: space_width_def)

declare SkipSpace.simps [simp del]

definition Sscanf_d :: "string \<Rightarrow> int64 option" where
  "Sscanf_d s =
     (case SkipSpace s of
        None \<Rightarrow> None
      | Some s \<Rightarrow>
          (case (case s of
                   [] \<Rightarrow> (False, [])
                 | ch # t \<Rightarrow> if ch = CHR ''-'' then (True, t)
                             else if ch = CHR ''+'' then (False, t)
                             else (False, s)) of
             (negative, rest) \<Rightarrow>
               (let ds = takeWhile is_digit rest;
                    v = (if negative then - int (number ds) else int (number ds))
                in if ds = [] \<or> v < - (2 ^ 63) \<or> 2 ^ 63 \<le> v then None
                   else Some (word_of_int v))))"

section \<open>\<open>MyResourceReconciler\<close> (patterns/reconciler.go)\<close>

type_synonym MyResourceClient = "(MyResourceSpec, MyResourceStatus) Client"

definition finalizerName :: string where
  "finalizerName = ''myresource.my.domain/finalizer''"

text \<open>
  \<open>reconcileLogic\<close>: create or patch the Deployment, then copy its ready replicas into
  the status of the instance.
\<close>

definition MyResourceReconciler_reconcileLogic ::
  "MyResource \<Rightarrow> MyResourceClient \<Rightarrow> (error option \<times> MyResource) \<times> MyResourceClient" where
  "MyResourceReconciler_reconcileLogic instance c =
     (case CreateOrPatch ''Deployment'' (key_of instance) c of
        (Some err, c) \<Rightarrow>
          ((Some (Wrapped ''failed to create/update deployment'' err), instance), c)
      | (None, c) \<Rightarrow>
          ((None,
            instance\<lparr>status := (status instance)\<lparr>MyResourceStatus.ReadyReplicas :=
              (case deployments c (key_of instance) of None \<Rightarrow> 0 | Some ready \<Rightarrow> ready)\<rparr>\<rparr>),
           c))"

text \<open>\<open>updateStatus\<close>: a failed status update is logged, not returned.\<close>

definition MyResourceReconciler_updateStatus ::
  "Time \<Rightarrow> MyResource \<Rightarrow> string \<Rightarrow> string \<Rightarrow> string \<Rightarrow> MyResourceClient \<Rightarrow>
   MyResource \<times> MyResourceClient" where
  "MyResourceReconciler_updateStatus now instance st reason message c =
     (let instance = MyResource_SetCondition now instance ''Ready'' st reason message;
          instance = instance\<lparr>status := (status instance)\<lparr>LastUpdated := Some now\<rparr>\<rparr>
      in case client_Status_Update instance c of
           (err, c) \<Rightarrow> (instance, c))"

definition MyResourceReconciler_getRequeueInterval :: "MyResource \<Rightarrow> Duration" where
  "MyResourceReconciler_getRequeueInterval instance =
     (if MyResource_IsReady instance then 5 * Minute else 30 * Second)"

text \<open>
  \<open>cleanupExternalResources\<close> is a placeholder in the source (it returns nil). The
  reconciler takes the outcome of the cleanup as the parameter \<open>cleanup\<close>, so that both
  branches of \<open>reconcileDelete\<close> are covered; the placeholder is \<open>\<lambda>_. None\<close>.
\<close>

definition MyResourceReconciler_reconcileDelete ::
  "(MyResource \<Rightarrow> error option) \<Rightarrow> MyResource \<Rightarrow> MyResourceClient \<Rightarrow>
   outcome \<times> MyResourceClient" where
  "MyResourceReconciler_reconcileDelete cleanup instance c =
     (if ContainsFinalizer instance finalizerName then
        (case cleanup instance of
           Some err \<Rightarrow> ((Result_empty, Some err), c)
         | None \<Rightarrow>
             (let instance = RemoveFinalizer instance finalizerName
              in case client_Update instance c of
                   (Some err, c) \<Rightarrow> ((Result_empty, Some err), c)
                 | (None, c) \<Rightarrow> ((Result_empty, None), c)))
      else ((Result_empty, None), c))"

definition MyResourceReconciler_Reconcile ::
  "(MyResource \<Rightarrow> error option) \<Rightarrow> Time \<Rightarrow> Request \<Rightarrow> MyResourceClient \<Rightarrow>
   outcome \<times> MyResourceClient" where
  "MyResourceReconciler_Reconcile cleanup now req c =
     (case client_Get req c of
        (Inl err, c) \<Rightarrow>
          if IsNotFound err then ((Result_empty, None), c)
          else ((Result_empty, Some err), c)
      | (Inr instance, c) \<Rightarrow>
          if \<not> IsZero (DeletionTimestamp (metadata instance)) then
            MyResourceReconciler_reconcileDelete cleanup instance c
          else if \<not> ContainsFinalizer instance finalizerName then
            (let instance = AddFinalizer instance finalizerName
             in case client_Update instance c of
                  (Some err, c) \<Rightarrow> ((Result_empty, Some err), c)
                | (None, c) \<Rightarrow> ((\<lparr>Requeue = True, RequeueAfter = 0\<rparr>, None), c))
          else
            (let instance = instance\<lparr>status := (status instance)\<lparr>
                   MyResourceStatus.ObservedGeneration := Generation (metadata instance)\<rparr>\<rparr>
             in case MyResourceReconciler_reconcileLogic instance c of
                  ((Some err, instance), c) \<Rightarrow>
                    (case MyResourceReconciler_updateStatus now instance ConditionFalse
                            ''ReconcileError'' (Error err) c of
                       (instance, c) \<Rightarrow> ((Result_empty, Some err), c))
                | ((None, instance), c) \<Rightarrow>
                    (case MyResourceReconciler_updateStatus now instance ConditionTrue
                            ''Ready'' ''MyResource is ready'' c of
                       (instance, c) \<Rightarrow>
                         ((\<lparr>Requeue = False,
                            RequeueAfter = MyResourceReconciler_getRequeueInterval instance\<rparr>,
                           None), c))))"

section \<open>\<open>DatabaseReconciler\<close> (examples/database-operator)\<close>

type_synonym DatabaseClient = "(DatabaseSpec, DatabaseStatus) Client"

definition databaseFinalizer :: string where
  "databaseFinalizer = ''database.my.domain/finalizer''"

text \<open>
  Deletion needs no cleanup of its own here: the owned objects go with the owner
  references.
\<close>

definition DatabaseReconciler_reconcileDelete ::
  "Database \<Rightarrow> DatabaseClient \<Rightarrow> outcome \<times> DatabaseClient" where
  "DatabaseReconciler_reconcileDelete database c =
     (if ContainsFinalizer database databaseFinalizer then
        (let database = RemoveFinalizer database databaseFinalizer
         in case client_Update database c of
              (Some err, c) \<Rightarrow> ((Result_empty, Some err), c)
            | (None, c) \<Rightarrow> ((Result_empty, None), c))
      else ((Result_empty, None), c))"

text \<open>
  The five child reconcilers each create or patch one owned object; a failure inside
  the mutate function (the password generator of \<open>reconcileSecret\<close>) is a failure of
  the call.
\<close>

definition DatabaseReconciler_reconcilePVC ::
  "Database \<Rightarrow> DatabaseClient \<Rightarrow> error option \<times> DatabaseClient" where
  "DatabaseReconciler_reconcilePVC database c =
     CreateOrPatch ''PersistentVolumeClaim'' (key_of database) c"

definition DatabaseReconciler_reconcileSecret ::
  "Database \<Rightarrow> DatabaseClient \<Rightarrow> error option \<times> DatabaseClient" where
  "DatabaseReconciler_reconcileSecret database c =
     (let secretName = PasswordSecretName (spec database);
          secretName = (if secretName = '''' then Name (metadata database) @ ''-password''
                        else secretName)
      in CreateOrPatch ''Secret'' (NamespacedName (Namespace (metadata database)) secretName) c)"

definition DatabaseReconciler_reconcileConfigMap ::
  "Database \<Rightarrow> DatabaseClient \<Rightarrow> error option \<times> DatabaseClient" where
  "DatabaseReconciler_reconcileConfigMap database c =
     (if DatabaseSpec.ConfigMapName (spec database) = '''' then (None, c)
      else CreateOrPatch ''ConfigMap''
             (NamespacedName (Namespace (metadata database))
                (DatabaseSpec.ConfigMapName (spec database))) c)"

definition DatabaseReconciler_reconcileDeployment ::
  "Database \<Rightarrow> DatabaseClient \<Rightarrow> error option \<times> DatabaseClient" where
  "DatabaseReconciler_reconcileDeployment database c =
     CreateOrPatch ''Deployment'' (key_of database) c"

definition DatabaseReconciler_reconcileService ::
  "Database \<Rightarrow> DatabaseClient \<Rightarrow> error option \<times> DatabaseClient" where
  "DatabaseReconciler_reconcileService database c =
     CreateOrPatch ''Service'' (key_of database) c"

text \<open>
  \<open>updateStatus\<close>: a Deployment that is not found leaves the zero-valued struct, with
  an empty name and no ready replica.
\<close>

definition DatabaseReconciler_updateStatus ::
  "Time \<Rightarrow> Database \<Rightarrow> DatabaseClient \<Rightarrow> (error option \<times> Database) \<times> DatabaseClient" where
  "DatabaseReconciler_updateStatus now database c =
     (case client_Get_Deployment (key_of database) c of
        (got, c) \<Rightarrow>
          (case (case got of
                   Inl err \<Rightarrow> if \<not> IsNotFound err then Inl err
                              else Inr \<lparr>dep_Name = '''', dep_ReadyReplicas = 0\<rparr>
                 | Inr deployment \<Rightarrow> Inr deployment) of
             Inl err \<Rightarrow> ((Some err, database), c)
           | Inr deployment \<Rightarrow>
               (let database = database\<lparr>status := (status database)\<lparr>
                      DatabaseStatus.ReadyReplicas := dep_ReadyReplicas deployment,
                      DeploymentName := dep_Name deployment,
                      ServiceName := Name (metadata database),
                      DatabaseStatus.ObservedGeneration := Generation (metadata database)\<rparr>\<rparr>;
                    database =
                      (if dep_ReadyReplicas deployment = DatabaseSpec.Replicas (spec database) then
                         Database_SetCondition now
                           (database\<lparr>status := (status database)\<lparr>
                              DatabaseStatus.Phase := ''Ready''\<rparr>\<rparr>)
                           ''Ready'' ConditionTrue ''Ready'' ''Database is ready''
                       else
                         Database_SetCondition now
                           (database\<lparr>status := (status database)\<lparr>
                              DatabaseStatus.Phase := ''Progressing''\<rparr>\<rparr>)
                           ''Ready'' ConditionFalse ''Progressing''
                           (''Waiting for replicas: '' @
                              Sprintf_d (scast (dep_ReadyReplicas deployment)) @ ''/'' @
                              Sprintf_d (scast (DatabaseSpec.Replicas (spec database)))))
                in case client_Status_Update database c of
                     (err, c) \<Rightarrow> ((err, database), c))))"

definition DatabaseReconciler_setErrorStatus ::
  "Time \<Rightarrow> Database \<Rightarrow> string \<Rightarrow> error \<Rightarrow> DatabaseClient \<Rightarrow> outcome \<times> DatabaseClient" where
  "DatabaseReconciler_setErrorStatus now database reason err c =
     (let database = database\<lparr>status := (status database)\<lparr>
            DatabaseStatus.Phase := ''Failed''\<rparr>\<rparr>;
          database = Database_SetCondition now database ''Ready'' ConditionFalse reason (Error err)
      in case client_Status_Update database c of
           (_, c) \<Rightarrow> ((Result_empty, Some err), c))"

definition DatabaseReconciler_Reconcile ::
  "Time \<Rightarrow> Request \<Rightarrow> DatabaseClient \<Rightarrow> outcome \<times> DatabaseClient" where
  "DatabaseReconciler_Reconcile now req c =
     (case client_Get req c of
        (Inl err, c) \<Rightarrow>
          if IsNotFound err then ((Result_empty, None), c)
          else ((Result_empty, Some err), c)
      | (Inr database, c) \<Rightarrow>
          if \<not> IsZero (DeletionTimestamp (metadata database)) then
            DatabaseReconciler_reconcileDelete database c
          else if \<not> ContainsFinalizer database databaseFinalizer then
            (let database = AddFinalizer database databaseFinalizer
             in case client_Update database c of
                  (Some err, c) \<Rightarrow> ((Result_empty, Some err), c)
                | (None, c) \<Rightarrow> ((\<lparr>Requeue = True, RequeueAfter = 0\<rparr>, None), c))
          else
            (let database = database\<lparr>status := (status database)\<lparr>
                   DatabaseStatus.Phase := ''Reconciling''\<rparr>\<rparr>
             in case client_Status_Update database c of
                  (updateErr, c) \<Rightarrow>
             (case DatabaseReconciler_reconcilePVC database c of
                (Some err, c) \<Rightarrow>
                  DatabaseReconciler_setErrorStatus now database ''PVCCreateFailed'' err c
              | (None, c) \<Rightarrow>
             (case DatabaseReconciler_reconcileSecret database c of
                (Some err, c) \<Rightarrow>
                  DatabaseReconciler_setErrorStatus now database ''SecretCreateFailed'' err c
              | (None, c) \<Rightarrow>
             (case DatabaseReconciler_reconcileConfigMap database c of
                (Some err, c) \<Rightarrow>
                  DatabaseReconciler_setErrorStatus now database ''ConfigMapCreateFailed'' err c
              | (None, c) \<Rightarrow>
             (case DatabaseReconciler_reconcileDeployment database c of
                (Some err, c) \<Rightarrow>
                  DatabaseReconciler_setErrorStatus now database ''DeploymentCreateFailed'' err c
              | (None, c) \<Rightarrow>
             (case DatabaseReconciler_reconcileService database c of
                (Some err, c) \<Rightarrow>
                  DatabaseReconciler_setErrorStatus now database ''ServiceCreateFailed'' err c
              | (None, c) \<Rightarrow>
             (case DatabaseReconciler_updateStatus now database c of
                ((Some err, database), c) \<Rightarrow> ((Result_empty, Some err), c)
              | ((None, database), c) \<Rightarrow>
                  (let requeueAfter = 1 * Minute;
                       requeueAfter = (if \<not> Database_IsReady database then 10 * Second
                                       else requeueAfter)
                   in ((\<lparr>Requeue = False, RequeueAfter = requeueAfter\<rparr>, None), c))))))))))"

section \<open>\<open>CocktailReconciler\<close> (examples/simple-operator)\<close>

type_synonym CocktailClient = "(CocktailSpec, CocktailStatus) Client"

definition cocktailFinalizer :: string where
  "cocktailFinalizer = ''cocktails.bar.my.domain/finalizer''"

text \<open>
  \<open>cleanupCocktail\<close> is a placeholder returning nil; its outcome is the parameter
  \<open>cleanup\<close>, as for \<open>MyResourceReconciler\<close>.
\<close>

definition CocktailReconciler_reconcileDelete ::
  "(Cocktail \<Rightarrow> error option) \<Rightarrow> Cocktail \<Rightarrow> CocktailClient \<Rightarrow> outcome \<times> CocktailClient" where
  "CocktailReconciler_reconcileDelete cleanup cocktail c =
     (if ContainsFinalizer cocktail cocktailFinalizer then
        (case cleanup cocktail of
           Some err \<Rightarrow> ((Result_empty, Some err), c)
         | None \<Rightarrow>
             (let cocktail = RemoveFinalizer cocktail cocktailFinalizer
              in case client_Update cocktail c of
                   (Some err, c) \<Rightarrow> ((Result_empty, Some err), c)
                 | (None, c) \<Rightarrow> ((Result_empty, None), c)))
      else ((Result_empty, None), c))"

section \<open>Retry with exponential backoff (patterns/advanced-reconciler.go)\<close>

text \<open>
  The retry count lives in the annotation \<open>my.domain/retryCount\<close> as decimal text. In the
  code it is an \<open>int\<close>, taken here at its width of 64 bits.
\<close>

text \<open>\<open>rc, ok := instance.Annotations[key]\<close> and \<open>instance.Annotations[key] = v\<close>.\<close>

definition annotation :: "('sp, 'st) Resource \<Rightarrow> string \<Rightarrow> string option" where
  "annotation obj k = (case Annotations (metadata obj) of None \<Rightarrow> None | Some m \<Rightarrow> m k)"

definition set_annotation :: "('sp, 'st) Resource \<Rightarrow> string \<Rightarrow> string \<Rightarrow> ('sp, 'st) Resource" where
  "set_annotation obj k v =
     obj\<lparr>metadata := (metadata obj)\<lparr>Annotations :=
       Some ((case Annotations (metadata obj) of None \<Rightarrow> Map.empty | Some m \<Rightarrow> m)(k \<mapsto> v))\<rparr>\<rparr>"

definition retryCountKey :: string where
  "retryCountKey = ''my.domain/retryCount''"

text \<open>
  The delay of one failed attempt: \<open>time.Duration(1<<uint(retryCount)) * time.Second\<close>,
  cut at five minutes. The shift count is the count read as an unsigned 64-bit integer;
  Go shifts every bit out when the count is 64 or more; the product wraps at 64 bits.
\<close>

definition backoff :: "int64 \<Rightarrow> Duration" where
  "backoff retryCount =
     (let backoff = (if unat retryCount < 64 then push_bit (unat retryCount) 1 else 0) * Second
      in if sint (5 * Minute) < sint backoff then 5 * Minute else backoff)"

text \<open>
  The first block of \<open>ReconcileWithRetry\<close>: the count starts at 0 and is overwritten
  when the annotation is present and \<open>Sscanf\<close> can read it.
\<close>

definition read_retryCount :: "('sp, 'st) Resource \<Rightarrow> int64" where
  "read_retryCount instance =
     (case annotation instance retryCountKey of
        None \<Rightarrow> 0
      | Some rc \<Rightarrow> (case Sscanf_d rc of None \<Rightarrow> 0 | Some n \<Rightarrow> n))"

text \<open>
  \<open>ReconcileWithRetry\<close>. In this file \<open>reconcileLogic\<close> is a placeholder that returns
  nil; the reconciler takes the outcome of the logic as the parameter \<open>reconcileLogic\<close>.
  The failure of either \<open>Update\<close> is logged or dropped, never returned. On the success
  branch the annotation map cannot be nil, because a positive count was read from it.
\<close>

definition ReconcileWithRetry ::
  "(MyResource \<Rightarrow> error option) \<Rightarrow> Request \<Rightarrow> MyResourceClient \<Rightarrow> outcome \<times> MyResourceClient" where
  "ReconcileWithRetry reconcileLogic req c =
     (case client_Get req c of
        (Inl err, c) \<Rightarrow> ((Result_empty, IgnoreNotFound err), c)
      | (Inr instance, c) \<Rightarrow>
          (let retryCount = read_retryCount instance
           in case reconcileLogic instance of
                Some err \<Rightarrow>
                  (let delay = backoff retryCount;
                       retryCount = retryCount + 1;
                       instance = set_annotation instance retryCountKey (Sprintf_d retryCount)
                   in case client_Update instance c of
                        (updateErr, c) \<Rightarrow>
                          if 10 < sint retryCount then
                            ((Result_empty, Some err),
                             Recorder_Event ''Warning'' ''ReconciliationFailed''
                               ''Max retries exceeded'' c)
                          else ((\<lparr>Requeue = False, RequeueAfter = delay\<rparr>, None), c))
              | None \<Rightarrow>
                  if 0 < sint retryCount then
                    (let instance = set_annotation instance retryCountKey ''0''
                     in case client_Update instance c of
                          (_, c) \<Rightarrow> ((\<lparr>Requeue = False, RequeueAfter = 5 * Minute\<rparr>, None), c))
                  else ((\<lparr>Requeue = False, RequeueAfter = 5 * Minute\<rparr>, None), c)))"

section \<open>Mapping a ConfigMap event to reconcile requests\<close>

record ConfigMap =
  configmap_metadata :: ObjectMeta
  Data :: "(string \<rightharpoonup> string) option"

text \<open>The loop of \<open>findObjectsForConfigMap\<close> over \<open>list.Items\<close>.\<close>

fun findObjectsForConfigMap_requests :: "ConfigMap \<Rightarrow> MyResource list \<Rightarrow> Request list" where
  "findObjectsForConfigMap_requests configMap [] = []"
| "findObjectsForConfigMap_requests configMap (item # items) =
     (if MyResourceSpec.ConfigMapName (spec item) = Name (configmap_metadata configMap) then
        NamespacedName (Namespace (metadata item)) (Name (metadata item))
          # findObjectsForConfigMap_requests configMap items
      else findObjectsForConfigMap_requests configMap items)"

definition findObjectsForConfigMap ::
  "ConfigMap \<Rightarrow> MyResourceClient \<Rightarrow> Request list \<times> MyResourceClient" where
  "findObjectsForConfigMap configMap c =
     (case client_List (Namespace (configmap_metadata configMap)) c of
        (Inl err, c) \<Rightarrow> ([], c)
      | (Inr items, c) \<Rightarrow> (findObjectsForConfigMap_requests configMap items, c))"

text \<open>\<open>findDatabasesForConfigMap\<close> (database_controller.go) is the same function on Databases.\<close>

fun findDatabasesForConfigMap_requests :: "ConfigMap \<Rightarrow> Database list \<Rightarrow> Request list" where
  "findDatabasesForConfigMap_requests configMap [] = []"
| "findDatabasesForConfigMap_requests configMap (item # items) =
     (if DatabaseSpec.ConfigMapName (spec item) = Name (configmap_metadata configMap) then
        NamespacedName (Namespace (metadata item)) (Name (metadata item))
          # findDatabasesForConfigMap_requests configMap items
      else findDatabasesForConfigMap_requests configMap items)"

definition findDatabasesForConfigMap ::
  "ConfigMap \<Rightarrow> DatabaseClient \<Rightarrow> Request list \<times> DatabaseClient" where
  "findDatabasesForConfigMap configMap c =
     (case client_List (Namespace (configmap_metadata configMap)) c of
        (Inl err, c) \<Rightarrow> ([], c)
      | (Inr items, c) \<Rightarrow> (findDatabasesForConfigMap_requests configMap items, c))"

section \<open>The defaulting webhook (patterns/webhook.go)\<close>

definition setDefaults :: "MyResource \<Rightarrow> MyResource" where
  "setDefaults instance =
     (let instance =
            (if MyResourceSpec.Replicas (spec instance) = 0
             then instance\<lparr>spec := (spec instance)\<lparr>MyResourceSpec.Replicas := 1\<rparr>\<rparr>
             else instance);
          instance =
            (if MyResourceSpec.Image (spec instance) = ''''
             then instance\<lparr>spec := (spec instance)\<lparr>MyResourceSpec.Image := ''nginx:latest''\<rparr>\<rparr>
             else instance);
          instance =
            (if Parameters (spec instance) = None
             then instance\<lparr>spec := (spec instance)\<lparr>Parameters := Some Map.empty\<rparr>\<rparr>
             else instance);
          instance =
            (if Labels (metadata instance) = None
             then instance\<lparr>metadata := (metadata instance)\<lparr>Labels := Some Map.empty\<rparr>\<rparr>
             else instance)
      in case Labels (metadata instance) of
           None \<Rightarrow> instance
         | Some labels \<Rightarrow>
             if labels ''app'' = None
             then instance\<lparr>metadata := (metadata instance)\<lparr>Labels :=
                    Some (labels(''app'' \<mapsto> Name (metadata instance)))\<rparr>\<rparr>
             else instance)"

section \<open>Notions used to state the properties\<close>

text \<open>
  After \<open>SetCondition\<close>: one condition per type, exactly one of type \<open>t\<close> with the given
  fields, the conditions of the other types as before.
\<close>

definition one_per_type_after ::
  "Time \<Rightarrow> Condition list \<Rightarrow> Condition list \<Rightarrow> string \<Rightarrow> string \<Rightarrow> string \<Rightarrow> string \<Rightarrow> bool" where
  "one_per_type_after now cs cs' t st r m \<longleftrightarrow>
     distinct (map Type cs') \<and>
     filter (\<lambda>c. Type c = t) cs' =
       [\<lparr>Type = t, Status = st, Reason = r, Message = m, LastTransitionTime = now\<rparr>] \<and>
     filter (\<lambda>c. Type c \<noteq> t) cs' = filter (\<lambda>c. Type c \<noteq> t) cs"

text \<open>
  The requests that belong to the normal reconcile path: work on owned objects and
  status writes. Fetching the object and updating its metadata are not among them.
\<close>

fun business_call :: "('sp, 'st) call \<Rightarrow> bool" where
  "business_call (CallStatusUpdate obj) = True"
| "business_call (CallCreateOrPatch kind k) = True"
| "business_call (CallGetDeployment k) = True"
| "business_call _ = False"

text \<open>The requests a call has added to the log of the client.\<close>

definition new_calls :: "('sp, 'st) Client \<Rightarrow> ('sp, 'st) Client \<Rightarrow> ('sp, 'st) call list" where
  "new_calls c c' = drop (length (calls c)) (calls c')"

text \<open>
  What a reconcile call \<open>r\<close> does on a live object without the finalizer token: it asks
  for the object and for one update carrying the token, nothing else; when the update
  is served, the token is stored and the result asks for a requeue; when the update
  fails, its error is returned and the stored objects are as before.
\<close>

definition finalizer_added ::
  "string \<Rightarrow> Request \<Rightarrow> ('sp, 'st) Resource \<Rightarrow> ('sp, 'st) Client \<Rightarrow>
   outcome \<times> ('sp, 'st) Client \<Rightarrow> bool" where
  "finalizer_added token req instance c r \<longleftrightarrow>
     new_calls c (snd r) = [CallGet req, CallUpdate (AddFinalizer instance token)] \<and>
     (case faults c (Suc (length (calls c))) of
        None \<Rightarrow>
          fst r = (\<lparr>Requeue = True, RequeueAfter = 0\<rparr>, None) \<and>
          lookup req (objects (snd r)) = Some (AddFinalizer instance token)
      | Some err \<Rightarrow>
          fst r = (Result_empty, Some err) \<and> objects (snd r) = objects c)"

text \<open>The normal path was entered only on an object that carried the token.\<close>

definition normal_path_guarded ::
  "string \<Rightarrow> Request \<Rightarrow> ('sp, 'st) Client \<Rightarrow> outcome \<times> ('sp, 'st) Client \<Rightarrow> bool" where
  "normal_path_guarded token req c r \<longleftrightarrow>
     (list_ex business_call (new_calls c (snd r)) \<longrightarrow>
        (case lookup req (objects c) of
           None \<Rightarrow> False
         | Some instance \<Rightarrow> ContainsFinalizer instance token))"

text \<open>
  What the store holds under the name of an object once an update of it was served:
  the object as written, or nothing when the update left a terminating object without
  finalizers.
\<close>

definition stored_after :: "('sp, 'st) Resource \<Rightarrow> ('sp, 'st) Resource option" where
  "stored_after obj =
     (if \<not> IsZero (DeletionTimestamp (metadata obj)) \<and> Finalizers (metadata obj) = []
      then None else Some obj)"

text \<open>
  What the deletion path \<open>r\<close> does on an object that carries the token, from the client
  state \<open>c\<close> in which it starts. If the cleanup fails, its error is returned, no request
  is made and nothing changes. If the cleanup succeeds, one update without the token is
  requested. When it is served, the call returns the empty result without error and the
  removal is in the store: the object is stored without the token while it holds another
  finalizer, and is erased when the token was its last finalizer. When the update
  fails, its error is returned and the stored objects are as before.
\<close>

definition finalizer_removed ::
  "string \<Rightarrow> (('sp, 'st) Resource \<Rightarrow> error option) \<Rightarrow> ('sp, 'st) Resource \<Rightarrow>
   ('sp, 'st) Client \<Rightarrow> outcome \<times> ('sp, 'st) Client \<Rightarrow> bool" where
  "finalizer_removed token cleanup obj c r \<longleftrightarrow>
     (case cleanup obj of
        Some err \<Rightarrow> fst r = (Result_empty, Some err) \<and> snd r = c
      | None \<Rightarrow>
          new_calls c (snd r) = [CallUpdate (RemoveFinalizer obj token)] \<and>
          (case faults c (length (calls c)) of
             None \<Rightarrow>
               fst r = (Result_empty, None) \<and>
               \<not> ContainsFinalizer (RemoveFinalizer obj token) token \<and>
               lookup (key_of obj) (objects (snd r)) = stored_after (RemoveFinalizer obj token)
           | Some err \<Rightarrow>
               fst r = (Result_empty, Some err) \<and> objects (snd r) = objects c))"

text \<open>
  The invariant of the data model: the observed generation of an object does not exceed
  its generation (both are signed 64-bit integers). \<open>observed\<close> selects the field
  \<open>ObservedGeneration\<close> of the status of the kind at hand.
\<close>

definition observed_ok :: "('st \<Rightarrow> int64) \<Rightarrow> ('sp, 'st) Resource \<Rightarrow> bool" where
  "observed_ok observed obj \<longleftrightarrow> sint (observed (status obj)) \<le> sint (Generation (metadata obj))"

text \<open>A request is fine when it is no status write or writes an object that satisfies \<open>P\<close>.\<close>

fun status_write_ok :: "(('sp, 'st) Resource \<Rightarrow> bool) \<Rightarrow> ('sp, 'st) call \<Rightarrow> bool" where
  "status_write_ok P (CallStatusUpdate obj) = P obj"
| "status_write_ok P _ = True"

text \<open>
  A call \<open>r\<close> started in \<open>c\<close> keeps the invariant: if every stored object satisfies it
  before the call, every status write of the call carries an object that satisfies it,
  and every stored object satisfies it after the call.
\<close>

definition generation_invariant_kept ::
  "('st \<Rightarrow> int64) \<Rightarrow> ('sp, 'st) Client \<Rightarrow> outcome \<times> ('sp, 'st) Client \<Rightarrow> bool" where
  "generation_invariant_kept observed c r \<longleftrightarrow>
     (list_all (observed_ok observed) (objects c) \<longrightarrow>
        list_all (status_write_ok (observed_ok observed)) (new_calls c (snd r)) \<and>
        list_all (observed_ok observed) (objects (snd r)))"

text \<open>
  The state of a reconcile call between two requests, as the proofs follow it: the
  stored objects satisfy the invariant, the object under reconciliation has generation
  \<open>g\<close> while it is stored, and the status writes made since the \<open>n\<close>-th request are fine.
\<close>

definition tracked ::
  "('st \<Rightarrow> int64) \<Rightarrow> int64 \<Rightarrow> NamespacedName \<Rightarrow> nat \<Rightarrow> ('sp, 'st) Client \<Rightarrow> bool" where
  "tracked observed g req n c \<longleftrightarrow>
     list_all (observed_ok observed) (objects c) \<and>
     (case lookup req (objects c) of
        None \<Rightarrow> True
      | Some stored \<Rightarrow> Generation (metadata stored) = g) \<and>
     n \<le> length (calls c) \<and>
     list_all (status_write_ok (observed_ok observed)) (drop n (calls c))"

text \<open>
  How the engine reads the outcome of a reconcile call: an error sends the identity back
  through the rate-limited queue; without error the identity is requeued when the result
  asks for it, by \<open>Requeue\<close> or by a positive \<open>RequeueAfter\<close>; any other outcome ends the
  work on the identity until a new event arrives.
\<close>

definition requeued :: "outcome \<Rightarrow> bool" where
  "requeued r \<longleftrightarrow>
     (case snd r of
        Some err \<Rightarrow> True
      | None \<Rightarrow> Requeue (fst r) \<or> 0 < sint (RequeueAfter (fst r)))"

text \<open>
  What a failing attempt \<open>r\<close> of \<open>ReconcileWithRetry\<close> does on the fetched instance, whose
  annotation reads as the count \<open>n\<close>. While the incremented count is at most 10 the
  attempt returns the backoff delay of \<open>n\<close> and no error; once it exceeds 10 the attempt
  records "Max retries exceeded" and returns the error with the empty result. In both
  cases the incremented count is written back, and it is in the store when the update
  is served.
\<close>

definition retry_outcome ::
  "error \<Rightarrow> MyResource \<Rightarrow> MyResourceClient \<Rightarrow> outcome \<times> MyResourceClient \<Rightarrow> bool" where
  "retry_outcome err inst c r \<longleftrightarrow>
     (let n = read_retryCount inst in
      (if 10 < sint (n + 1)
       then fst r = (Result_empty, Some err) \<and>
            events (snd r) =
              events c @ [(''Warning'', ''ReconciliationFailed'', ''Max retries exceeded'')]
       else fst r = (\<lparr>Requeue = False, RequeueAfter = backoff n\<rparr>, None) \<and>
            events (snd r) = events c) \<and>
      (case faults c (Suc (length (calls c))) of
         None \<Rightarrow>
           lookup (key_of inst) (objects (snd r)) =
             stored_after (set_annotation inst retryCountKey (Sprintf_d (n + 1)))
       | Some updateErr \<Rightarrow> objects (snd r) = objects c))"

text \<open>A run of \<open>k\<close> reconcile attempts on the same request, with their outcomes in order.\<close>

fun attempts ::
  "nat \<Rightarrow> (MyResource \<Rightarrow> error option) \<Rightarrow> Request \<Rightarrow> MyResourceClient \<Rightarrow>
   outcome list \<times> MyResourceClient" where
  "attempts 0 logic req c = ([], c)"
| "attempts (Suc k) logic req c =
     (case ReconcileWithRetry logic req c of
        (r, c') \<Rightarrow> (case attempts k logic req c' of (rs, c'') \<Rightarrow> (r # rs, c'')))"

text \<open>The delay \<open>min(2^n seconds, 5 minutes)\<close>, in nanoseconds.\<close>

definition capped_delay :: "nat \<Rightarrow> int" where
  "capped_delay n = min (2 ^ n * 1000000000) (300 * 1000000000)"

text \<open>An object whose retry annotation holds the given text.\<close>

definition with_retryCount :: "string \<Rightarrow> ('sp, 'st) Resource \<Rightarrow> ('sp, 'st) Resource" where
  "with_retryCount rc obj = set_annotation obj retryCountKey rc"

section \<open>Sample objects and clusters\<close>

text \<open>
  Concrete inputs on which the properties below are evaluated: one object of each
  kind in the namespace \<open>default\<close>, a cluster that stores given objects and answers
  requests as \<open>faults\<close> says and the answers "every request is served" and "the second
  request of the call fails with a conflict".
\<close>

definition sample_key :: NamespacedName where
  "sample_key = NamespacedName ''default'' ''sample''"

definition sample_meta :: ObjectMeta where
  "sample_meta = \<lparr>Name = ''sample'', Namespace = ''default'', Generation = 1,
     DeletionTimestamp = None, Finalizers = [], Labels = None, Annotations = None\<rparr>"

definition sample_MyResource :: MyResource where
  "sample_MyResource =
     \<lparr>metadata = sample_meta,
      spec = \<lparr>MyResourceSpec.Replicas = 1, Image = ''nginx:latest'',
               ConfigMapName = ''settings'', Parameters = None\<rparr>,
      status = \<lparr>MyResourceStatus.Conditions = [], ObservedGeneration = 0,
                 ReadyReplicas = 0, LastUpdated = None\<rparr>\<rparr>"

definition sample_Database :: Database where
  "sample_Database =
     \<lparr>metadata = sample_meta,
      spec = \<lparr>DatabaseSpec.Replicas = 1, Image = ''postgres:15'', Storage = 1024,
               DatabaseName = ''appdb'', UserName = ''app'', PasswordSecretName = '''',
               ConfigMapName = ''settings'', ServiceType = '''', StorageClass = ''''\<rparr>,
      status = \<lparr>DatabaseStatus.Phase = '''', ReadyReplicas = 0, ObservedGeneration = 0,
                 Conditions = [], ServiceName = '''', DeploymentName = ''''\<rparr>\<rparr>"

definition sample_Cocktail :: Cocktail where
  "sample_Cocktail =
     \<lparr>metadata = sample_meta,
      spec = \<lparr>Size = 2, Recipe = ''Mojito'', Garnish = True, Instructions = ''''\<rparr>,
      status = \<lparr>CocktailStatus.Phase = '''', ServingsReady = 0, LastPrepared = None,
                 Conditions = []\<rparr>\<rparr>"

text \<open>The same object once deletion has begun at time 5.\<close>

definition terminating :: "('sp, 'st) Resource \<Rightarrow> ('sp, 'st) Resource" where
  "terminating obj = obj\<lparr>metadata := (metadata obj)\<lparr>DeletionTimestamp := Some 5\<rparr>\<rparr>"

definition cluster :: "('sp, 'st) Resource list \<Rightarrow> (nat \<Rightarrow> error option) \<Rightarrow> ('sp, 'st) Client" where
  "cluster objs fs = \<lparr>objects = objs, deployments = Map.empty, faults = fs, calls = [], events = []\<rparr>"

definition all_served :: "nat \<Rightarrow> error option" where
  "all_served i = None"

definition second_request_conflicts :: "nat \<Rightarrow> error option" where
  "second_request_conflicts i = (if i = 1 then Some Conflict else None)"

text \<open>The placeholders of the source, and hooks that fail.\<close>

definition cleanupExternalResources :: "MyResource \<Rightarrow> error option" where
  "cleanupExternalResources inst = None"

definition cleanupCocktail :: "Cocktail \<Rightarrow> error option" where
  "cleanupCocktail cocktail = None"

definition reconcileLogic :: "MyResource \<Rightarrow> error option" where
  "reconcileLogic inst = None"

definition failing :: "('sp, 'st) Resource \<Rightarrow> error option" where
  "failing obj = Some (Failure ''unavailable'')"

definition ready_at :: "Time \<Rightarrow> Condition" where
  "ready_at t = \<lparr>Type = ''Ready'', Status = ConditionTrue, Reason = ''Ready'',
                  Message = ''Database is ready'', LastTransitionTime = t\<rparr>"

text \<open>A ConfigMap \<open>default/settings\<close>, and copies of an object under another name or namespace.\<close>

definition sample_ConfigMap :: ConfigMap where
  "sample_ConfigMap =
     \<lparr>configmap_metadata = sample_meta\<lparr>Name := ''settings''\<rparr>, Data = None\<rparr>"

definition renamed :: "string \<Rightarrow> ('sp, 'st) Resource \<Rightarrow> ('sp, 'st) Resource" where
  "renamed n obj = obj\<lparr>metadata := (metadata obj)\<lparr>Name := n\<rparr>\<rparr>"

definition moved :: "string \<Rightarrow> ('sp, 'st) Resource \<Rightarrow> ('sp, 'st) Resource" where
  "moved ns obj = obj\<lparr>metadata := (metadata obj)\<lparr>Namespace := ns\<rparr>\<rparr>"

section \<open>Requests of the client\<close>

lemma lookup_key: "lookup k objs = Some obj \<Longrightarrow> key_of obj = k"
  by (induction objs) (auto simp: lookup_def split: if_splits)

lemma lookup_store:
  "lookup k objs = Some obj \<Longrightarrow> key_of (f obj) = k \<Longrightarrow> lookup k (store k f objs) = Some (f obj)"
  by (induction objs) (auto simp: lookup_def split: if_splits)

lemma lookup_store_None: "lookup k objs = None \<Longrightarrow> store k f objs = objs"
  by (induction objs) (auto simp: lookup_def split: if_splits)

lemma lookup_store_other:
  "k' \<noteq> k \<Longrightarrow> (\<And>obj. key_of (f obj) = key_of obj) \<Longrightarrow> lookup k' (store k f objs) = lookup k' objs"
  by (induction objs) (auto simp: lookup_def)

lemma key_of_AddFinalizer [simp]: "key_of (AddFinalizer obj f) = key_of obj"
  by (simp add: AddFinalizer_def key_of_def)

lemma key_of_RemoveFinalizer [simp]: "key_of (RemoveFinalizer obj f) = key_of obj"
  by (simp add: RemoveFinalizer_def key_of_def)

lemma key_of_status [simp]: "key_of (obj\<lparr>status := s\<rparr>) = key_of obj"
  by (simp add: key_of_def)

lemma client_Get_served:
  "faults c (length (calls c)) = None \<Longrightarrow>
   client_Get k c =
     ((case lookup k (objects c) of None \<Rightarrow> Inl NotFound | Some obj \<Rightarrow> Inr obj),
      c\<lparr>calls := calls c @ [CallGet k]\<rparr>)"
  by (simp add: client_Get_def issue_def split: option.splits)

lemma client_Get_failed:
  "faults c (length (calls c)) = Some err \<Longrightarrow>
   client_Get k c = (Inl err, c\<lparr>calls := calls c @ [CallGet k]\<rparr>)"
  by (simp add: client_Get_def issue_def)

lemma lookup_erase: "lookup k (erase k objs) = None"
  by (induction objs) (auto simp: lookup_def erase_def)

lemma erase_list_all: "list_all P objs \<Longrightarrow> list_all P (erase k objs)"
  by (simp add: erase_def list_all_iff)

lemma client_Update_served:
  "faults c (length (calls c)) = None \<Longrightarrow> lookup (key_of obj) (objects c) = Some stored \<Longrightarrow>
   client_Update obj c =
     (None, c\<lparr>calls := calls c @ [CallUpdate obj],
              objects :=
                (if \<not> IsZero (DeletionTimestamp (metadata obj)) \<and> Finalizers (metadata obj) = []
                 then erase (key_of obj) (objects c)
                 else store (key_of obj) (\<lambda>stored. obj\<lparr>status := status stored\<rparr>) (objects c))\<rparr>)"
  by (simp add: client_Update_def issue_def)

lemma client_Update_failed:
  "faults c (length (calls c)) = Some err \<Longrightarrow>
   client_Update obj c = (Some err, c\<lparr>calls := calls c @ [CallUpdate obj]\<rparr>)"
  by (simp add: client_Update_def issue_def)

lemma client_Get_calls: "calls (snd (client_Get k c)) = calls c @ [CallGet k]"
  by (simp add: client_Get_def issue_def split: option.splits)

lemma client_Get_objects: "objects (snd (client_Get k c)) = objects c"
  by (simp add: client_Get_def issue_def split: option.splits)

lemma client_Get_faults: "faults (snd (client_Get k c)) = faults c"
  by (simp add: client_Get_def issue_def split: option.splits)

lemma client_Get_Inr:
  "client_Get k c = (Inr obj, c') \<Longrightarrow>
   lookup k (objects c) = Some obj \<and> faults c (length (calls c)) = None \<and>
   c' = c\<lparr>calls := calls c @ [CallGet k]\<rparr>"
  by (auto simp: client_Get_def issue_def split: option.splits)

section \<open>Properties of \<open>SetCondition\<close>\<close>

lemma SetCondition_loop_found:
  "snd (SetCondition_loop n cs) \<longleftrightarrow> (\<exists>c\<in>set cs. Type c = Type n)"
  by (induction cs) (auto split: prod.splits)

lemma SetCondition_loop_not_found:
  "\<forall>c\<in>set cs. Type c \<noteq> Type n \<Longrightarrow> SetCondition_loop n cs = (cs, False)"
  by (induction cs) auto

lemma SetCondition_loop_types:
  "\<exists>c\<in>set cs. Type c = Type n \<Longrightarrow> map Type (fst (SetCondition_loop n cs)) = map Type cs"
  by (induction cs) (auto simp: case_prod_beta)

lemma SetCondition_loop_others:
  "filter (\<lambda>c. Type c \<noteq> Type n) (fst (SetCondition_loop n cs)) =
   filter (\<lambda>c. Type c \<noteq> Type n) cs"
  by (induction cs) (auto simp: case_prod_beta)

lemma SetCondition_found:
  "\<exists>c\<in>set cs. Type c = t \<Longrightarrow>
   SetCondition now cs t st r m =
     fst (SetCondition_loop \<lparr>Type = t, Status = st, Reason = r, Message = m,
                             LastTransitionTime = now\<rparr> cs)"
  using SetCondition_loop_found
    [of "\<lparr>Type = t, Status = st, Reason = r, Message = m, LastTransitionTime = now\<rparr>" cs]
  by (simp add: SetCondition_def Let_def case_prod_beta)

lemma SetCondition_not_found:
  "\<forall>c\<in>set cs. Type c \<noteq> t \<Longrightarrow>
   SetCondition now cs t st r m =
     cs @ [\<lparr>Type = t, Status = st, Reason = r, Message = m, LastTransitionTime = now\<rparr>]"
  by (simp add: SetCondition_def SetCondition_loop_not_found)

lemma filter_none: "\<forall>c\<in>set cs. \<not> P c \<Longrightarrow> filter P cs = []"
  by (induction cs) auto

lemma filter_all: "\<forall>c\<in>set cs. P c \<Longrightarrow> filter P cs = cs"
  by (induction cs) auto

lemma distinct_types_head:
  "distinct (map Type (c # cs)) \<Longrightarrow> \<forall>d\<in>set cs. Type d \<noteq> Type c"
  by (induction cs) auto

lemma SetCondition_loop_same:
  "distinct (map Type cs) \<Longrightarrow> \<exists>c\<in>set cs. Type c = Type n \<Longrightarrow>
   filter (\<lambda>c. Type c = Type n) (fst (SetCondition_loop n cs)) = [n]"
proof (induction cs)
  case Nil
  then show ?case by simp
next
  case (Cons c cs)
  show ?case
  proof (cases "Type c = Type n")
    case True
    from distinct_types_head [OF Cons.prems(1)] True
    have "\<forall>d\<in>set cs. \<not> Type d = Type n" by simp
    then have "filter (\<lambda>c. Type c = Type n) cs = []"
      by (rule filter_none)
    with True show ?thesis by simp
  next
    case False
    with Cons show ?thesis by (simp add: case_prod_beta)
  qed
qed

lemma distinct_types_snoc:
  "distinct (map Type cs) \<Longrightarrow> \<forall>c\<in>set cs. Type c \<noteq> Type n \<Longrightarrow> distinct (map Type (cs @ [n]))"
  by (induction cs) auto

text \<open>The three parts of the invariant, on the shared body.\<close>

lemma SetCondition_distinct:
  assumes "distinct (map Type cs)"
  shows "distinct (map Type (SetCondition now cs t st r m))"
proof (cases "\<exists>c\<in>set cs. Type c = t")
  case True
  then show ?thesis
    using assms by (simp add: SetCondition_found SetCondition_loop_types)
next
  case False
  then show ?thesis
    using assms by (auto simp: SetCondition_not_found)
qed

lemma SetCondition_exactly_one:
  assumes "distinct (map Type cs)"
  shows "filter (\<lambda>c. Type c = t) (SetCondition now cs t st r m) =
         [\<lparr>Type = t, Status = st, Reason = r, Message = m, LastTransitionTime = now\<rparr>]"
proof (cases "\<exists>c\<in>set cs. Type c = t")
  case True
  then show ?thesis
    using assms SetCondition_loop_same
      [of cs "\<lparr>Type = t, Status = st, Reason = r, Message = m, LastTransitionTime = now\<rparr>"]
    by (simp add: SetCondition_found)
next
  case False
  then show ?thesis
    by (simp add: SetCondition_not_found filter_none)
qed

lemma SetCondition_others_unchanged:
  "filter (\<lambda>c. Type c \<noteq> t) (SetCondition now cs t st r m) = filter (\<lambda>c. Type c \<noteq> t) cs"
proof (cases "\<exists>c\<in>set cs. Type c = t")
  case True
  then show ?thesis
    using SetCondition_loop_others
      [of "\<lparr>Type = t, Status = st, Reason = r, Message = m, LastTransitionTime = now\<rparr>" cs]
    by (simp add: SetCondition_found)
next
  case False
  then show ?thesis
    by (simp add: SetCondition_not_found)
qed

text \<open>
  C9. On a list with at most one condition per type, \<open>SetCondition\<close> keeps at most one
  condition per type, leaves exactly one condition of type \<open>t\<close>, with the given status,
  reason and message, and leaves the conditions of every other type as they are.
\<close>

theorem SetCondition_one_per_type:
  "(distinct (map Type (DatabaseStatus.Conditions (status d))) \<longrightarrow>
      one_per_type_after now (DatabaseStatus.Conditions (status d))
        (DatabaseStatus.Conditions (status (Database_SetCondition now d t st r m))) t st r m) \<and>
   (distinct (map Type (CocktailStatus.Conditions (status c))) \<longrightarrow>
      one_per_type_after now (CocktailStatus.Conditions (status c))
        (CocktailStatus.Conditions (status (Cocktail_SetCondition now c t st r m))) t st r m)"
  by (simp add: one_per_type_after_def Database_SetCondition_def Cocktail_SetCondition_def
      SetCondition_distinct SetCondition_exactly_one SetCondition_others_unchanged)

theorem SetCondition_one_per_type_witness:
  "distinct (map Type [ready_at 100]) \<and>
   one_per_type_after 200 [ready_at 100]
     (DatabaseStatus.Conditions (status (Database_SetCondition 200
        (sample_Database\<lparr>status := (status sample_Database)\<lparr>
           DatabaseStatus.Conditions := [ready_at 100]\<rparr>\<rparr>)
        ''Available'' ConditionTrue ''Available'' ''Database is available'')))
     ''Available'' ConditionTrue ''Available'' ''Database is available'' \<and>
   one_per_type_after 200 [ready_at 100]
     (CocktailStatus.Conditions (status (Cocktail_SetCondition 200
        (sample_Cocktail\<lparr>status := (status sample_Cocktail)\<lparr>
           CocktailStatus.Conditions := [ready_at 100]\<rparr>\<rparr>)
        ''Ready'' ConditionFalse ''Error'' ''Cocktail failed'')))
     ''Ready'' ConditionFalse ''Error'' ''Cocktail failed''"
proof -
  let ?d = "sample_Database\<lparr>status := (status sample_Database)\<lparr>
              DatabaseStatus.Conditions := [ready_at 100]\<rparr>\<rparr>"
  let ?c = "sample_Cocktail\<lparr>status := (status sample_Cocktail)\<lparr>
              CocktailStatus.Conditions := [ready_at 100]\<rparr>\<rparr>"
  have h: "distinct (map Type [ready_at 100])" by simp
  from SetCondition_one_per_type
    [of ?d 200 "''Available''" ConditionTrue "''Available''" "''Database is available''" ?c]
  have "one_per_type_after 200 [ready_at 100]
     (DatabaseStatus.Conditions (status (Database_SetCondition 200 ?d
        ''Available'' ConditionTrue ''Available'' ''Database is available'')))
     ''Available'' ConditionTrue ''Available'' ''Database is available''"
    by simp
  moreover from SetCondition_one_per_type
    [of ?d 200 "''Ready''" ConditionFalse "''Error''" "''Cocktail failed''" ?c]
  have "one_per_type_after 200 [ready_at 100]
     (CocktailStatus.Conditions (status (Cocktail_SetCondition 200 ?c
        ''Ready'' ConditionFalse ''Error'' ''Cocktail failed'')))
     ''Ready'' ConditionFalse ''Error'' ''Cocktail failed''"
    by simp
  ultimately show ?thesis using h by blast
qed

section \<open>The transition time of a condition\<close>

lemma find_SetCondition_loop:
  "\<exists>c\<in>set cs. Type c = Type n \<Longrightarrow>
   find (\<lambda>c. Type c = Type n) (fst (SetCondition_loop n cs)) = Some n"
  by (induction cs) (auto simp: case_prod_beta)

lemma find_append_new:
  "\<forall>c\<in>set cs. Type c \<noteq> t \<Longrightarrow> Type n = t \<Longrightarrow> find (\<lambda>c. Type c = t) (cs @ [n]) = Some n"
  by (induction cs) auto

text \<open>
  Whatever was stored, the condition of type \<open>t\<close> read back after \<open>SetCondition\<close> carries
  the time of the call.
\<close>

lemma GetCondition_SetCondition:
  "GetCondition (SetCondition now cs t st r m) t =
     Some \<lparr>Type = t, Status = st, Reason = r, Message = m, LastTransitionTime = now\<rparr>"
proof (cases "\<exists>c\<in>set cs. Type c = t")
  case True
  then show ?thesis
    using find_SetCondition_loop
      [of cs "\<lparr>Type = t, Status = st, Reason = r, Message = m, LastTransitionTime = now\<rparr>"]
    by (simp add: GetCondition_def SetCondition_found)
next
  case False
  then show ?thesis
    by (simp add: GetCondition_def SetCondition_not_found find_append_new)
qed

text \<open>
  C1 (the code departs from it). A call that keeps the status value of a stored
  condition and changes only its reason or message has to leave \<open>LastTransitionTime\<close>
  as it is. \<open>SetCondition\<close> overwrites the stored condition with the new one, stamped
  with the current time: a condition \<open>Ready = True\<close> last changed at time 100 and set
  again to \<open>True\<close> at time 200, with another message, is stored with time 200, on a
  Database and on a Cocktail alike.
\<close>

theorem SetCondition_restamps_unchanged_status:
  "DatabaseStatus.Conditions (status (Database_SetCondition 200
      (sample_Database\<lparr>status := (status sample_Database)\<lparr>
         DatabaseStatus.Conditions := [ready_at 100]\<rparr>\<rparr>)
      ''Ready'' ConditionTrue ''Ready'' ''Still ready'')) =
     [\<lparr>Type = ''Ready'', Status = ConditionTrue, Reason = ''Ready'',
        Message = ''Still ready'', LastTransitionTime = 200\<rparr>] \<and>
   CocktailStatus.Conditions (status (Cocktail_SetCondition 200
      (sample_Cocktail\<lparr>status := (status sample_Cocktail)\<lparr>
         CocktailStatus.Conditions := [ready_at 100]\<rparr>\<rparr>)
      ''Ready'' ConditionTrue ''Ready'' ''Still ready'')) =
     [\<lparr>Type = ''Ready'', Status = ConditionTrue, Reason = ''Ready'',
        Message = ''Still ready'', LastTransitionTime = 200\<rparr>] \<and>
   Status (ready_at 100) = ConditionTrue \<and> LastTransitionTime (ready_at 100) = 100"
  by (simp add: Database_SetCondition_def Cocktail_SetCondition_def SetCondition_def ready_at_def)

section \<open>Fetching an object that is gone\<close>

text \<open>
  C5. A reconcile call whose fetch reports NotFound returns the empty result and no
  error; it makes no other request and leaves the stored objects as they are.
\<close>

theorem Reconcile_NotFound_is_success:
  "(fst (client_Get req c) = Inl NotFound \<longrightarrow>
      fst (MyResourceReconciler_Reconcile cleanup now req c) = (Result_empty, None) \<and>
      new_calls c (snd (MyResourceReconciler_Reconcile cleanup now req c)) = [CallGet req] \<and>
      objects (snd (MyResourceReconciler_Reconcile cleanup now req c)) = objects c) \<and>
   (fst (client_Get req d) = Inl NotFound \<longrightarrow>
      fst (DatabaseReconciler_Reconcile now req d) = (Result_empty, None) \<and>
      new_calls d (snd (DatabaseReconciler_Reconcile now req d)) = [CallGet req] \<and>
      objects (snd (DatabaseReconciler_Reconcile now req d)) = objects d)"
proof (intro conjI impI)
  assume g: "fst (client_Get req c) = Inl NotFound"
  then obtain c' where c': "client_Get req c = (Inl NotFound, c')"
    by (cases "client_Get req c") auto
  from c' have "c' = snd (client_Get req c)" by simp
  then have calls': "calls c' = calls c @ [CallGet req]" and objs': "objects c' = objects c"
    by (simp_all add: client_Get_calls client_Get_objects)
  have r: "MyResourceReconciler_Reconcile cleanup now req c = ((Result_empty, None), c')"
    by (simp add: MyResourceReconciler_Reconcile_def c')
  show "fst (MyResourceReconciler_Reconcile cleanup now req c) = (Result_empty, None)"
    by (simp add: r)
  show "new_calls c (snd (MyResourceReconciler_Reconcile cleanup now req c)) = [CallGet req]"
    by (simp add: r new_calls_def calls')
  show "objects (snd (MyResourceReconciler_Reconcile cleanup now req c)) = objects c"
    by (simp add: r objs')
next
  assume g: "fst (client_Get req d) = Inl NotFound"
  then obtain d' where d': "client_Get req d = (Inl NotFound, d')"
    by (cases "client_Get req d") auto
  from d' have "d' = snd (client_Get req d)" by simp
  then have calls': "calls d' = calls d @ [CallGet req]" and objs': "objects d' = objects d"
    by (simp_all add: client_Get_calls client_Get_objects)
  have r: "DatabaseReconciler_Reconcile now req d = ((Result_empty, None), d')"
    by (simp add: DatabaseReconciler_Reconcile_def d')
  show "fst (DatabaseReconciler_Reconcile now req d) = (Result_empty, None)"
    by (simp add: r)
  show "new_calls d (snd (DatabaseReconciler_Reconcile now req d)) = [CallGet req]"
    by (simp add: r new_calls_def calls')
  show "objects (snd (DatabaseReconciler_Reconcile now req d)) = objects d"
    by (simp add: r objs')
qed

theorem Reconcile_NotFound_is_success_witness:
  "fst (client_Get sample_key (cluster [] all_served :: MyResourceClient)) = Inl NotFound \<and>
   fst (MyResourceReconciler_Reconcile cleanupExternalResources 7 sample_key
          (cluster [] all_served)) = (Result_empty, None) \<and>
   fst (client_Get sample_key (cluster [] all_served :: DatabaseClient)) = Inl NotFound \<and>
   fst (DatabaseReconciler_Reconcile 7 sample_key (cluster [] all_served)) = (Result_empty, None)"
proof -
  have h1: "fst (client_Get sample_key (cluster [] all_served :: MyResourceClient)) = Inl NotFound"
    by (simp add: client_Get_def issue_def lookup_def cluster_def all_served_def)
  have h2: "fst (client_Get sample_key (cluster [] all_served :: DatabaseClient)) = Inl NotFound"
    by (simp add: client_Get_def issue_def lookup_def cluster_def all_served_def)
  from Reconcile_NotFound_is_success
    [of sample_key "cluster [] all_served" cleanupExternalResources 7 "cluster [] all_served" ] h1 h2
  show ?thesis by blast
qed

section \<open>Adding the finalizer\<close>

lemma AddFinalizer_status [simp]: "status (AddFinalizer obj f) = status obj"
  by (simp add: AddFinalizer_def)

lemma AddFinalizer_same_status [simp]:
  "(AddFinalizer obj f)\<lparr>status := status obj\<rparr> = AddFinalizer obj f"
  by (simp add: AddFinalizer_def)

lemma RemoveFinalizer_same_status [simp]:
  "(RemoveFinalizer obj f)\<lparr>status := status obj\<rparr> = RemoveFinalizer obj f"
  by (simp add: RemoveFinalizer_def)

lemma new_calls_append [simp]: "new_calls c (c\<lparr>calls := calls c @ xs, objects := objs\<rparr>) = xs"
  "new_calls c (c\<lparr>calls := calls c @ xs\<rparr>) = xs"
  by (simp_all add: new_calls_def)

lemma AddFinalizer_DeletionTimestamp [simp]:
  "DeletionTimestamp (metadata (AddFinalizer obj f)) = DeletionTimestamp (metadata obj)"
  by (simp add: AddFinalizer_def)

text \<open>An update of a fetched object: both answers of the API server.\<close>

lemma update_after_get:
  assumes "lookup req (objects c) = Some instance" and "key_of obj' = req"
  shows "client_Update obj' (c\<lparr>calls := calls c @ [CallGet req]\<rparr>) =
     (case faults c (Suc (length (calls c))) of
        None \<Rightarrow>
          (None, c\<lparr>calls := calls c @ [CallGet req, CallUpdate obj'],
                   objects :=
                     (if \<not> IsZero (DeletionTimestamp (metadata obj')) \<and> Finalizers (metadata obj') = []
                      then erase req (objects c)
                      else store req (\<lambda>stored. obj'\<lparr>status := status stored\<rparr>) (objects c))\<rparr>)
      | Some err \<Rightarrow> (Some err, c\<lparr>calls := calls c @ [CallGet req, CallUpdate obj']\<rparr>))"
  using assms by (simp add: client_Update_def issue_def split: option.splits)

lemma stored_after_update:
  assumes "lookup req (objects c) = Some instance" and "key_of obj' = req"
    and "status obj' = status instance"
  shows "\<not> IsZero (DeletionTimestamp (metadata obj')) \<and> Finalizers (metadata obj') = [] \<Longrightarrow>
         lookup req (erase req (objects c)) = stored_after obj'"
    and "IsZero (DeletionTimestamp (metadata obj')) \<Longrightarrow>
         lookup req (store req (\<lambda>stored. obj'\<lparr>status := status stored\<rparr>) (objects c)) =
         stored_after obj'"
    and "Finalizers (metadata obj') \<noteq> [] \<Longrightarrow>
         lookup req (store req (\<lambda>stored. obj'\<lparr>status := status stored\<rparr>) (objects c)) =
         stored_after obj'"
proof -
  have "lookup req (store req (\<lambda>stored. obj'\<lparr>status := status stored\<rparr>) (objects c)) =
        Some (obj'\<lparr>status := status instance\<rparr>)"
    using assms by (intro lookup_store) simp_all
  moreover have "obj'\<lparr>status := status instance\<rparr> = obj'"
    using assms(3) [symmetric] by simp
  ultimately have s: "lookup req (store req (\<lambda>stored. obj'\<lparr>status := status stored\<rparr>) (objects c)) =
        Some obj'" by simp
  show "lookup req (erase req (objects c)) = stored_after obj'"
    if "\<not> IsZero (DeletionTimestamp (metadata obj')) \<and> Finalizers (metadata obj') = []"
    using that by (simp add: stored_after_def lookup_erase)
  show "lookup req (store req (\<lambda>stored. obj'\<lparr>status := status stored\<rparr>) (objects c)) =
         stored_after obj'" if "IsZero (DeletionTimestamp (metadata obj'))"
    using that s by (simp add: stored_after_def)
  show "lookup req (store req (\<lambda>stored. obj'\<lparr>status := status stored\<rparr>) (objects c)) =
         stored_after obj'" if "Finalizers (metadata obj') \<noteq> []"
    using that s by (simp add: stored_after_def)
qed

lemma stored_after_live:
  "IsZero (DeletionTimestamp (metadata obj)) \<Longrightarrow> stored_after obj = Some obj"
  by (simp add: stored_after_def)

lemma MyResource_finalizer_added:
  assumes lk: "lookup req (objects c) = Some instance"
    and served: "faults c (length (calls c)) = None"
    and live: "IsZero (DeletionTimestamp (metadata instance))"
    and absent: "\<not> ContainsFinalizer instance finalizerName"
  shows "finalizer_added finalizerName req instance c
           (MyResourceReconciler_Reconcile cleanup now req c)"
proof -
  have key: "key_of (AddFinalizer instance finalizerName) = req"
    using lookup_key [OF lk] by simp
  have st: "status (AddFinalizer instance finalizerName) = status instance" by simp
  note upd = update_after_get [OF lk key] and sto = stored_after_update [OF lk key st]
  show ?thesis
    using lk served live absent
    by (simp add: finalizer_added_def MyResourceReconciler_Reconcile_def client_Get_served upd sto
        stored_after_live split: option.splits)
qed

lemma Database_finalizer_added:
  assumes lk: "lookup req (objects c) = Some instance"
    and served: "faults c (length (calls c)) = None"
    and live: "IsZero (DeletionTimestamp (metadata instance))"
    and absent: "\<not> ContainsFinalizer instance databaseFinalizer"
  shows "finalizer_added databaseFinalizer req instance c
           (DatabaseReconciler_Reconcile now req c)"
proof -
  have key: "key_of (AddFinalizer instance databaseFinalizer) = req"
    using lookup_key [OF lk] by simp
  have st: "status (AddFinalizer instance databaseFinalizer) = status instance" by simp
  note upd = update_after_get [OF lk key] and sto = stored_after_update [OF lk key st]
  show ?thesis
    using lk served live absent
    by (simp add: finalizer_added_def DatabaseReconciler_Reconcile_def client_Get_served upd sto
        stored_after_live split: option.splits)
qed

lemma client_Update_calls: "calls (snd (client_Update obj c)) = calls c @ [CallUpdate obj]"
  by (simp add: client_Update_def issue_def split: option.splits)

lemma client_Update_callsD:
  "client_Update obj c = (e, c') \<Longrightarrow> calls c' = calls c @ [CallUpdate obj]"
  using client_Update_calls [of obj c] by simp

lemma new_calls_snoc:
  "calls c' = calls c @ xs \<Longrightarrow> new_calls c c' = xs"
  by (simp add: new_calls_def)

lemma MyResource_reconcileDelete_no_business:
  "\<not> list_ex business_call
        (new_calls c (snd (MyResourceReconciler_reconcileDelete cleanup inst
                             (c\<lparr>calls := calls c @ [CallGet req]\<rparr>))))"
proof -
  let ?c1 = "c\<lparr>calls := calls c @ [CallGet req]\<rparr>"
  let ?r = "MyResourceReconciler_reconcileDelete cleanup inst ?c1"
  have "calls (snd ?r) = calls c @ [CallGet req] \<or>
        calls (snd ?r) = calls c @ [CallGet req, CallUpdate (RemoveFinalizer inst finalizerName)]"
    by (auto simp: MyResourceReconciler_reconcileDelete_def
        dest!: client_Update_callsD split: option.splits prod.splits)
  then show ?thesis
    by (auto dest!: new_calls_snoc)
qed

lemma Database_reconcileDelete_no_business:
  "\<not> list_ex business_call
        (new_calls c (snd (DatabaseReconciler_reconcileDelete inst
                             (c\<lparr>calls := calls c @ [CallGet req]\<rparr>))))"
proof -
  let ?c1 = "c\<lparr>calls := calls c @ [CallGet req]\<rparr>"
  let ?r = "DatabaseReconciler_reconcileDelete inst ?c1"
  have "calls (snd ?r) = calls c @ [CallGet req] \<or>
        calls (snd ?r) = calls c @ [CallGet req, CallUpdate (RemoveFinalizer inst databaseFinalizer)]"
    by (auto simp: DatabaseReconciler_reconcileDelete_def
        dest!: client_Update_callsD split: option.splits prod.splits)
  then show ?thesis
    by (auto dest!: new_calls_snoc)
qed

lemma add_finalizer_no_business:
  "\<not> list_ex business_call
        (new_calls c (snd (case client_Update obj (c\<lparr>calls := calls c @ [CallGet req]\<rparr>) of
                             (Some err, c') \<Rightarrow> ((Result_empty, Some err), c')
                           | (None, c') \<Rightarrow> ((\<lparr>Requeue = True, RequeueAfter = 0\<rparr>, None), c'))))"
proof -
  let ?r = "case client_Update obj (c\<lparr>calls := calls c @ [CallGet req]\<rparr>) of
              (Some err, c') \<Rightarrow> ((Result_empty, Some err), c')
            | (None, c') \<Rightarrow> ((\<lparr>Requeue = True, RequeueAfter = 0\<rparr>, None), c')"
  have "calls (snd ?r) = calls c @ [CallGet req, CallUpdate obj]"
    by (auto dest!: client_Update_callsD split: option.splits prod.splits)
  then show ?thesis
    by (auto dest!: new_calls_snoc)
qed

lemma MyResource_normal_path_guarded:
  "normal_path_guarded finalizerName req c (MyResourceReconciler_Reconcile cleanup now req c)"
proof (cases "faults c (length (calls c))")
  case (Some err)
  then show ?thesis
    by (simp add: normal_path_guarded_def MyResourceReconciler_Reconcile_def client_Get_failed)
next
  case None
  show ?thesis
  proof (cases "lookup req (objects c)")
    case no: None
    with None show ?thesis
      by (simp add: normal_path_guarded_def MyResourceReconciler_Reconcile_def client_Get_served)
  next
    case (Some obj)
    show ?thesis
    proof (cases "ContainsFinalizer obj finalizerName")
      case True
      with Some show ?thesis by (simp add: normal_path_guarded_def)
    next
      case False
      with None Some show ?thesis
        using MyResource_reconcileDelete_no_business [of c cleanup obj req]
          add_finalizer_no_business [of c "AddFinalizer obj finalizerName" req]
        by (simp add: normal_path_guarded_def MyResourceReconciler_Reconcile_def client_Get_served)
    qed
  qed
qed

lemma Database_normal_path_guarded:
  "normal_path_guarded databaseFinalizer req c (DatabaseReconciler_Reconcile now req c)"
proof (cases "faults c (length (calls c))")
  case (Some err)
  then show ?thesis
    by (simp add: normal_path_guarded_def DatabaseReconciler_Reconcile_def client_Get_failed)
next
  case None
  show ?thesis
  proof (cases "lookup req (objects c)")
    case no: None
    with None show ?thesis
      by (simp add: normal_path_guarded_def DatabaseReconciler_Reconcile_def client_Get_served)
  next
    case (Some obj)
    show ?thesis
    proof (cases "ContainsFinalizer obj databaseFinalizer")
      case True
      with Some show ?thesis by (simp add: normal_path_guarded_def)
    next
      case False
      with None Some show ?thesis
        using Database_reconcileDelete_no_business [of c obj req]
          add_finalizer_no_business [of c "AddFinalizer obj databaseFinalizer" req]
        by (simp add: normal_path_guarded_def DatabaseReconciler_Reconcile_def client_Get_served)
    qed
  qed
qed

text \<open>
  C3 (as amended). On a live object without the finalizer token, a reconcile call adds
  the token and asks for one update, without any request of the normal path. If the
  update is served, the token is stored and the result asks for a requeue; if the
  update fails, the call returns the error of the update and nothing is stored. The
  normal path is entered only on an object that carries the token.
\<close>

theorem finalizer_added_before_normal_path:
  "(lookup req (objects c) = Some instance \<and> faults c (length (calls c)) = None \<and>
    IsZero (DeletionTimestamp (metadata instance)) \<and> \<not> ContainsFinalizer instance finalizerName \<longrightarrow>
      finalizer_added finalizerName req instance c
        (MyResourceReconciler_Reconcile cleanup now req c)) \<and>
   normal_path_guarded finalizerName req c (MyResourceReconciler_Reconcile cleanup now req c) \<and>
   (lookup req (objects d) = Some database \<and> faults d (length (calls d)) = None \<and>
    IsZero (DeletionTimestamp (metadata database)) \<and> \<not> ContainsFinalizer database databaseFinalizer \<longrightarrow>
      finalizer_added databaseFinalizer req database d (DatabaseReconciler_Reconcile now req d)) \<and>
   normal_path_guarded databaseFinalizer req d (DatabaseReconciler_Reconcile now req d)"
  by (simp add: MyResource_finalizer_added MyResource_normal_path_guarded
      Database_finalizer_added Database_normal_path_guarded)

lemmas sample_defs =
  sample_key_def sample_meta_def sample_MyResource_def sample_Database_def sample_Cocktail_def
  terminating_def cluster_def all_served_def second_request_conflicts_def
  cleanupExternalResources_def cleanupCocktail_def reconcileLogic_def failing_def

lemmas client_defs =
  client_Get_def client_Update_def erase_def client_Status_Update_def client_List_def CreateOrPatch_def
  client_Get_Deployment_def issue_def lookup_def key_of_def Recorder_Event_def

lemmas finalizer_defs =
  ContainsFinalizer_def AddFinalizer_def RemoveFinalizer_def finalizerName_def
  databaseFinalizer_def cocktailFinalizer_def

theorem finalizer_not_stored_when_update_fails:
  "IsZero (DeletionTimestamp (metadata sample_MyResource)) \<and>
   \<not> ContainsFinalizer sample_MyResource finalizerName \<and>
   fst (MyResourceReconciler_Reconcile cleanupExternalResources 7 sample_key
          (cluster [sample_MyResource] second_request_conflicts)) = (Result_empty, Some Conflict) \<and>
   objects (snd (MyResourceReconciler_Reconcile cleanupExternalResources 7 sample_key
          (cluster [sample_MyResource] second_request_conflicts))) = [sample_MyResource]"
  by (simp add: MyResourceReconciler_Reconcile_def sample_defs client_defs finalizer_defs)

theorem finalizer_added_before_normal_path_witness:
  "lookup sample_key (objects (cluster [sample_MyResource] all_served)) = Some sample_MyResource \<and>
   IsZero (DeletionTimestamp (metadata sample_MyResource)) \<and>
   \<not> ContainsFinalizer sample_MyResource finalizerName \<and>
   finalizer_added finalizerName sample_key sample_MyResource
     (cluster [sample_MyResource] all_served)
     (MyResourceReconciler_Reconcile cleanupExternalResources 7 sample_key
        (cluster [sample_MyResource] all_served)) \<and>
   finalizer_added databaseFinalizer sample_key sample_Database
     (cluster [sample_Database] all_served)
     (DatabaseReconciler_Reconcile 7 sample_key (cluster [sample_Database] all_served)) \<and>
   list_ex business_call
     (new_calls (cluster [AddFinalizer sample_MyResource finalizerName] all_served)
        (snd (MyResourceReconciler_Reconcile cleanupExternalResources 7 sample_key
                (cluster [AddFinalizer sample_MyResource finalizerName] all_served)))) \<and>
   ContainsFinalizer (AddFinalizer sample_MyResource finalizerName) finalizerName"
proof -
  let ?c = "cluster [sample_MyResource] all_served"
  let ?d = "cluster [sample_Database] all_served"
  let ?c2 = "cluster [AddFinalizer sample_MyResource finalizerName] all_served"
  have h1: "lookup sample_key (objects ?c) = Some sample_MyResource \<and>
      faults ?c (length (calls ?c)) = None \<and>
      IsZero (DeletionTimestamp (metadata sample_MyResource)) \<and>
      \<not> ContainsFinalizer sample_MyResource finalizerName"
    by (simp add: sample_defs lookup_def key_of_def finalizer_defs)
  have h2: "lookup sample_key (objects ?d) = Some sample_Database \<and>
      faults ?d (length (calls ?d)) = None \<and>
      IsZero (DeletionTimestamp (metadata sample_Database)) \<and>
      \<not> ContainsFinalizer sample_Database databaseFinalizer"
    by (simp add: sample_defs lookup_def key_of_def finalizer_defs)
  have h3: "list_ex business_call
     (new_calls ?c2 (snd (MyResourceReconciler_Reconcile cleanupExternalResources 7 sample_key ?c2)))"
    by (simp add: MyResourceReconciler_Reconcile_def MyResourceReconciler_reconcileLogic_def
        MyResourceReconciler_updateStatus_def MyResource_SetCondition_def SetCondition_def
        new_calls_def Let_def sample_defs client_defs finalizer_defs)
  have h4: "lookup sample_key (objects ?c2) = Some (AddFinalizer sample_MyResource finalizerName)"
    by (simp add: sample_defs lookup_def key_of_def finalizer_defs)
  from finalizer_added_before_normal_path
    [of sample_key ?c sample_MyResource cleanupExternalResources 7 ?d sample_Database] h1 h2
  have a: "finalizer_added finalizerName sample_key sample_MyResource ?c
       (MyResourceReconciler_Reconcile cleanupExternalResources 7 sample_key ?c)"
    and b: "finalizer_added databaseFinalizer sample_key sample_Database ?d
       (DatabaseReconciler_Reconcile 7 sample_key ?d)"
    by blast+
  from finalizer_added_before_normal_path
    [of sample_key ?c2 sample_MyResource cleanupExternalResources 7 ?d sample_Database]
  have "normal_path_guarded finalizerName sample_key ?c2
       (MyResourceReconciler_Reconcile cleanupExternalResources 7 sample_key ?c2)"
    by blast
  with h3 h4 have c: "ContainsFinalizer (AddFinalizer sample_MyResource finalizerName) finalizerName"
    by (simp add: normal_path_guarded_def)
  from h1 a b h3 c show ?thesis by blast
qed

section \<open>Removing the finalizer\<close>

lemma RemoveFinalizer_status [simp]: "status (RemoveFinalizer obj f) = status obj"
  by (simp add: RemoveFinalizer_def)

lemma RemoveFinalizer_gone [simp]: "\<not> ContainsFinalizer (RemoveFinalizer obj f) f"
  by (simp add: RemoveFinalizer_def ContainsFinalizer_def)

text \<open>An update of a stored object, from any client state: both answers.\<close>

lemma update_of_stored:
  assumes "lookup (key_of obj') (objects c) = Some stored"
  shows "client_Update obj' c =
     (case faults c (length (calls c)) of
        None \<Rightarrow>
          (None, c\<lparr>calls := calls c @ [CallUpdate obj'],
                   objects :=
                     (if \<not> IsZero (DeletionTimestamp (metadata obj')) \<and> Finalizers (metadata obj') = []
                      then erase (key_of obj') (objects c)
                      else store (key_of obj') (\<lambda>stored. obj'\<lparr>status := status stored\<rparr>)
                             (objects c))\<rparr>)
      | Some err \<Rightarrow> (Some err, c\<lparr>calls := calls c @ [CallUpdate obj']\<rparr>))"
  using assms by (simp add: client_Update_def issue_def split: option.splits)

lemma MyResource_reconcileDelete_removes:
  assumes lk: "lookup (key_of obj) (objects c) = Some obj"
    and present: "ContainsFinalizer obj finalizerName"
  shows "finalizer_removed finalizerName cleanup obj c
           (MyResourceReconciler_reconcileDelete cleanup obj c)"
proof -
  have lk': "lookup (key_of (RemoveFinalizer obj finalizerName)) (objects c) = Some obj"
    using lk by simp
  have st: "status (RemoveFinalizer obj finalizerName) = status obj" by simp
  have key: "key_of (RemoveFinalizer obj finalizerName) = key_of obj" by simp
  note upd = update_of_stored [OF lk'] and sto = stored_after_update [OF lk key st]
  show ?thesis
    using present
    by (simp add: finalizer_removed_def MyResourceReconciler_reconcileDelete_def upd sto
        split: option.splits)
qed

lemma Cocktail_reconcileDelete_removes:
  assumes lk: "lookup (key_of obj) (objects c) = Some obj"
    and present: "ContainsFinalizer obj cocktailFinalizer"
  shows "finalizer_removed cocktailFinalizer cleanup obj c
           (CocktailReconciler_reconcileDelete cleanup obj c)"
proof -
  have lk': "lookup (key_of (RemoveFinalizer obj cocktailFinalizer)) (objects c) = Some obj"
    using lk by simp
  have st: "status (RemoveFinalizer obj cocktailFinalizer) = status obj" by simp
  have key: "key_of (RemoveFinalizer obj cocktailFinalizer) = key_of obj" by simp
  note upd = update_of_stored [OF lk'] and sto = stored_after_update [OF lk key st]
  show ?thesis
    using present
    by (simp add: finalizer_removed_def CocktailReconciler_reconcileDelete_def upd sto
        split: option.splits)
qed

lemma MyResource_Reconcile_terminating:
  assumes "lookup req (objects c) = Some obj" and "faults c (length (calls c)) = None"
    and "\<not> IsZero (DeletionTimestamp (metadata obj))"
  shows "MyResourceReconciler_Reconcile cleanup now req c =
         MyResourceReconciler_reconcileDelete cleanup obj (c\<lparr>calls := calls c @ [CallGet req]\<rparr>)"
  using assms by (simp add: MyResourceReconciler_Reconcile_def client_Get_served)

text \<open>
  C4 (as amended). On a terminating object that carries the finalizer token: if the
  cleanup fails, the call returns the error, makes no update and leaves the stored
  finalizers as they are; if the cleanup succeeds, the call removes the token and asks
  for one update. When that update is served, the call returns the empty result without
  error and the removal is in the store: the object is stored without the token while
  another finalizer remains, and it is erased when the token was its last finalizer.
  When the update fails, its error is returned and the stored object keeps the token.
\<close>

theorem finalizer_removed_after_cleanup:
  "(lookup req (objects c) = Some obj \<and> faults c (length (calls c)) = None \<and>
    \<not> IsZero (DeletionTimestamp (metadata obj)) \<and> ContainsFinalizer obj finalizerName \<longrightarrow>
      finalizer_removed finalizerName cleanup obj (c\<lparr>calls := calls c @ [CallGet req]\<rparr>)
        (MyResourceReconciler_Reconcile cleanup now req c)) \<and>
   (lookup (key_of cocktail) (objects d) = Some cocktail \<and>
    ContainsFinalizer cocktail cocktailFinalizer \<longrightarrow>
      finalizer_removed cocktailFinalizer cleanup' cocktail d
        (CocktailReconciler_reconcileDelete cleanup' cocktail d))"
proof (intro conjI impI)
  assume h: "lookup req (objects c) = Some obj \<and> faults c (length (calls c)) = None \<and>
    \<not> IsZero (DeletionTimestamp (metadata obj)) \<and> ContainsFinalizer obj finalizerName"
  let ?c1 = "c\<lparr>calls := calls c @ [CallGet req]\<rparr>"
  from h have "lookup (key_of obj) (objects ?c1) = Some obj"
    using lookup_key [of req "objects c" obj] by simp
  then have "finalizer_removed finalizerName cleanup obj ?c1
               (MyResourceReconciler_reconcileDelete cleanup obj ?c1)"
    using h by (intro MyResource_reconcileDelete_removes) simp_all
  then show "finalizer_removed finalizerName cleanup obj ?c1
               (MyResourceReconciler_Reconcile cleanup now req c)"
    using h by (simp add: MyResource_Reconcile_terminating)
next
  assume "lookup (key_of cocktail) (objects d) = Some cocktail \<and>
    ContainsFinalizer cocktail cocktailFinalizer"
  then show "finalizer_removed cocktailFinalizer cleanup' cocktail d
        (CocktailReconciler_reconcileDelete cleanup' cocktail d)"
    by (simp add: Cocktail_reconcileDelete_removes)
qed

theorem finalizer_kept_when_update_fails:
  "\<not> IsZero (DeletionTimestamp (metadata (terminating (AddFinalizer sample_MyResource finalizerName)))) \<and>
   ContainsFinalizer (terminating (AddFinalizer sample_MyResource finalizerName)) finalizerName \<and>
   cleanupExternalResources (terminating (AddFinalizer sample_MyResource finalizerName)) = None \<and>
   fst (MyResourceReconciler_Reconcile cleanupExternalResources 7 sample_key
          (cluster [terminating (AddFinalizer sample_MyResource finalizerName)]
             second_request_conflicts)) = (Result_empty, Some Conflict) \<and>
   objects (snd (MyResourceReconciler_Reconcile cleanupExternalResources 7 sample_key
          (cluster [terminating (AddFinalizer sample_MyResource finalizerName)]
             second_request_conflicts))) =
     [terminating (AddFinalizer sample_MyResource finalizerName)]"
  by (simp add: MyResourceReconciler_Reconcile_def MyResourceReconciler_reconcileDelete_def
      sample_defs client_defs finalizer_defs)

text \<open>
  Four runs with every request served: the token is the last finalizer of a MyResource
  and of a Cocktail, and the object is erased; a MyResource holds the finalizer of
  another controller as well, and is stored with that finalizer only; the cleanup fails,
  and the object stays as it is.
\<close>

theorem finalizer_removed_after_cleanup_witness:
  "lookup sample_key
     (objects (cluster [terminating (AddFinalizer sample_MyResource finalizerName)] all_served)) =
     Some (terminating (AddFinalizer sample_MyResource finalizerName)) \<and>
   \<not> IsZero (DeletionTimestamp (metadata (terminating (AddFinalizer sample_MyResource finalizerName)))) \<and>
   ContainsFinalizer (terminating (AddFinalizer sample_MyResource finalizerName)) finalizerName \<and>
   fst (MyResourceReconciler_Reconcile cleanupExternalResources 7 sample_key
          (cluster [terminating (AddFinalizer sample_MyResource finalizerName)] all_served)) =
     (Result_empty, None) \<and>
   lookup sample_key
     (objects (snd (MyResourceReconciler_Reconcile cleanupExternalResources 7 sample_key
        (cluster [terminating (AddFinalizer sample_MyResource finalizerName)] all_served)))) =
     None \<and>
   fst (MyResourceReconciler_Reconcile cleanupExternalResources 7 sample_key
          (cluster [terminating (AddFinalizer (AddFinalizer sample_MyResource
                      ''other.domain/finalizer'') finalizerName)] all_served)) =
     (Result_empty, None) \<and>
   lookup sample_key
     (objects (snd (MyResourceReconciler_Reconcile cleanupExternalResources 7 sample_key
        (cluster [terminating (AddFinalizer (AddFinalizer sample_MyResource
                    ''other.domain/finalizer'') finalizerName)] all_served)))) =
     Some (terminating (AddFinalizer sample_MyResource ''other.domain/finalizer'')) \<and>
   fst (MyResourceReconciler_Reconcile failing 7 sample_key
          (cluster [terminating (AddFinalizer sample_MyResource finalizerName)] all_served)) =
     (Result_empty, Some (Failure ''unavailable'')) \<and>
   objects (snd (MyResourceReconciler_Reconcile failing 7 sample_key
          (cluster [terminating (AddFinalizer sample_MyResource finalizerName)] all_served))) =
     [terminating (AddFinalizer sample_MyResource finalizerName)] \<and>
   fst (CocktailReconciler_reconcileDelete cleanupCocktail
          (terminating (AddFinalizer sample_Cocktail cocktailFinalizer))
          (cluster [terminating (AddFinalizer sample_Cocktail cocktailFinalizer)] all_served)) =
     (Result_empty, None) \<and>
   lookup sample_key
     (objects (snd (CocktailReconciler_reconcileDelete cleanupCocktail
          (terminating (AddFinalizer sample_Cocktail cocktailFinalizer))
          (cluster [terminating (AddFinalizer sample_Cocktail cocktailFinalizer)] all_served)))) =
     None"
proof -
  let ?m = "terminating (AddFinalizer sample_MyResource finalizerName)"
  let ?o = "terminating (AddFinalizer (AddFinalizer sample_MyResource
              ''other.domain/finalizer'') finalizerName)"
  let ?k = "terminating (AddFinalizer sample_Cocktail cocktailFinalizer)"
  let ?c = "cluster [?m] all_served"
  let ?e = "cluster [?o] all_served"
  let ?d = "cluster [?k] all_served"
  have h1: "lookup sample_key (objects ?c) = Some ?m \<and> faults ?c (length (calls ?c)) = None \<and>
      \<not> IsZero (DeletionTimestamp (metadata ?m)) \<and> ContainsFinalizer ?m finalizerName"
    by (simp add: sample_defs lookup_def key_of_def finalizer_defs)
  have h2: "lookup (key_of ?k) (objects ?d) = Some ?k \<and> ContainsFinalizer ?k cocktailFinalizer"
    by (simp add: sample_defs lookup_def key_of_def finalizer_defs)
  have h3: "lookup sample_key (objects ?e) = Some ?o \<and> faults ?e (length (calls ?e)) = None \<and>
      \<not> IsZero (DeletionTimestamp (metadata ?o)) \<and> ContainsFinalizer ?o finalizerName"
    by (simp add: sample_defs lookup_def key_of_def finalizer_defs)
  have rm: "stored_after (RemoveFinalizer ?m finalizerName) = None"
    by (simp add: stored_after_def sample_defs finalizer_defs)
  have ro: "stored_after (RemoveFinalizer ?o finalizerName) =
      Some (terminating (AddFinalizer sample_MyResource ''other.domain/finalizer''))"
    by (simp add: stored_after_def sample_defs finalizer_defs)
  have rk: "stored_after (RemoveFinalizer ?k cocktailFinalizer) = None"
    by (simp add: stored_after_def sample_defs finalizer_defs)
  have km: "key_of ?m = sample_key" and ko: "key_of ?o = sample_key"
    and kk: "key_of ?k = sample_key"
    by (simp_all add: sample_defs key_of_def finalizer_defs)
  from finalizer_removed_after_cleanup
    [of sample_key ?c ?m cleanupExternalResources 7 ?k ?d cleanupCocktail] h1 h2
  have a: "finalizer_removed finalizerName cleanupExternalResources ?m
             (?c\<lparr>calls := calls ?c @ [CallGet sample_key]\<rparr>)
             (MyResourceReconciler_Reconcile cleanupExternalResources 7 sample_key ?c)"
    and b: "finalizer_removed cocktailFinalizer cleanupCocktail ?k ?d
             (CocktailReconciler_reconcileDelete cleanupCocktail ?k ?d)"
    by blast+
  from finalizer_removed_after_cleanup
    [of sample_key ?e ?o cleanupExternalResources 7 ?k ?d cleanupCocktail] h3
  have o: "finalizer_removed finalizerName cleanupExternalResources ?o
             (?e\<lparr>calls := calls ?e @ [CallGet sample_key]\<rparr>)
             (MyResourceReconciler_Reconcile cleanupExternalResources 7 sample_key ?e)"
    by blast
  from finalizer_removed_after_cleanup
    [of sample_key ?c ?m failing 7 ?k ?d cleanupCocktail] h1
  have f: "finalizer_removed finalizerName failing ?m
             (?c\<lparr>calls := calls ?c @ [CallGet sample_key]\<rparr>)
             (MyResourceReconciler_Reconcile failing 7 sample_key ?c)"
    by blast
  from a have a': "fst (MyResourceReconciler_Reconcile cleanupExternalResources 7 sample_key ?c) =
        (Result_empty, None) \<and>
      lookup sample_key
        (objects (snd (MyResourceReconciler_Reconcile cleanupExternalResources 7 sample_key ?c))) =
        None"
    by (simp add: finalizer_removed_def rm km cleanupExternalResources_def cluster_def
        all_served_def)
  from o have o': "fst (MyResourceReconciler_Reconcile cleanupExternalResources 7 sample_key ?e) =
        (Result_empty, None) \<and>
      lookup sample_key
        (objects (snd (MyResourceReconciler_Reconcile cleanupExternalResources 7 sample_key ?e))) =
        Some (terminating (AddFinalizer sample_MyResource ''other.domain/finalizer''))"
    by (simp add: finalizer_removed_def ro ko cleanupExternalResources_def cluster_def
        all_served_def)
  from b have b': "fst (CocktailReconciler_reconcileDelete cleanupCocktail ?k ?d) =
        (Result_empty, None) \<and>
      lookup sample_key (objects (snd (CocktailReconciler_reconcileDelete cleanupCocktail ?k ?d))) =
        None"
    by (simp add: finalizer_removed_def rk kk cleanupCocktail_def cluster_def all_served_def)
  from f have f': "fst (MyResourceReconciler_Reconcile failing 7 sample_key ?c) =
        (Result_empty, Some (Failure ''unavailable'')) \<and>
      objects (snd (MyResourceReconciler_Reconcile failing 7 sample_key ?c)) = [?m]"
    by (simp add: finalizer_removed_def failing_def cluster_def)
  from h1 a' o' b' f' show ?thesis by blast
qed

section \<open>The defaulting webhook\<close>

text \<open>After one application no default is missing.\<close>

lemma setDefaults_Replicas: "MyResourceSpec.Replicas (spec (setDefaults i)) \<noteq> 0"
  by (simp add: setDefaults_def Let_def split: option.splits)

lemma setDefaults_Image: "MyResourceSpec.Image (spec (setDefaults i)) \<noteq> ''''"
  by (simp add: setDefaults_def Let_def split: option.splits)

lemma setDefaults_Parameters: "\<exists>ps. Parameters (spec (setDefaults i)) = Some ps"
  by (simp add: setDefaults_def Let_def split: option.splits)

lemma setDefaults_Labels:
  "\<exists>labels v. Labels (metadata (setDefaults i)) = Some labels \<and> labels ''app'' = Some v"
  by (auto simp: setDefaults_def Let_def split: option.splits)

text \<open>An instance that misses no default is left as it is.\<close>

lemma setDefaults_fixed:
  assumes "MyResourceSpec.Replicas (spec i) \<noteq> 0" and "MyResourceSpec.Image (spec i) \<noteq> ''''"
    and "Parameters (spec i) = Some ps" and "Labels (metadata i) = Some labels"
    and "labels ''app'' = Some v"
  shows "setDefaults i = i"
  using assms by (simp add: setDefaults_def Let_def)

text \<open>
  C10. \<open>setDefaults\<close> is idempotent: a second application changes no field, label or
  parameter map.
\<close>

theorem setDefaults_idempotent: "setDefaults (setDefaults i) = setDefaults i"
proof -
  from setDefaults_Parameters [of i] obtain ps
    where ps: "Parameters (spec (setDefaults i)) = Some ps" by blast
  from setDefaults_Labels [of i] obtain labels v
    where ls: "Labels (metadata (setDefaults i)) = Some labels" "labels ''app'' = Some v"
    by blast
  from setDefaults_Replicas [of i] setDefaults_Image [of i] ps ls
  show ?thesis by (rule setDefaults_fixed)
qed

section \<open>Mapping a ConfigMap to the resources that reference it\<close>

lemma findObjectsForConfigMap_requests_filter:
  "findObjectsForConfigMap_requests cm items =
     map key_of (filter (\<lambda>item. MyResourceSpec.ConfigMapName (spec item) =
                                  Name (configmap_metadata cm)) items)"
  by (induction items) (simp_all add: key_of_def)

lemma findDatabasesForConfigMap_requests_filter:
  "findDatabasesForConfigMap_requests cm items =
     map key_of (filter (\<lambda>item. DatabaseSpec.ConfigMapName (spec item) =
                                  Name (configmap_metadata cm)) items)"
  by (induction items) (simp_all add: key_of_def)

lemma client_List_served:
  "faults c (length (calls c)) = None \<Longrightarrow>
   client_List ns c =
     (Inr (filter (\<lambda>obj. Namespace (metadata obj) = ns) (objects c)),
      c\<lparr>calls := calls c @ [CallList ns]\<rparr>)"
  by (simp add: client_List_def issue_def)

lemma client_List_failed:
  "faults c (length (calls c)) = Some err \<Longrightarrow>
   client_List ns c = (Inl err, c\<lparr>calls := calls c @ [CallList ns]\<rparr>)"
  by (simp add: client_List_def issue_def)

text \<open>When the list request fails, the mapping function returns no request.\<close>

lemma findObjectsForConfigMap_failed:
  "faults c (length (calls c)) = Some err \<Longrightarrow> fst (findObjectsForConfigMap cm c) = []"
  by (simp add: findObjectsForConfigMap_def client_List_failed)

lemma findDatabasesForConfigMap_failed:
  "faults c (length (calls c)) = Some err \<Longrightarrow> fst (findDatabasesForConfigMap cm c) = []"
  by (simp add: findDatabasesForConfigMap_def client_List_failed)

text \<open>
  C7. For a ConfigMap and the primary resources of the cluster, listed by the client,
  the mapping function returns the namespaced names of exactly the resources in the
  namespace of the ConfigMap whose \<open>spec.configMapName\<close> is the name of the ConfigMap:
  one request for each of them, in the order of the list, and none for any other.
\<close>

theorem requests_for_ConfigMap:
  "(faults c (length (calls c)) = None \<longrightarrow>
      fst (findObjectsForConfigMap cm c) =
        map key_of
          (filter (\<lambda>item. Namespace (metadata item) = Namespace (configmap_metadata cm) \<and>
                          MyResourceSpec.ConfigMapName (spec item) = Name (configmap_metadata cm))
             (objects c))) \<and>
   (faults d (length (calls d)) = None \<longrightarrow>
      fst (findDatabasesForConfigMap cm d) =
        map key_of
          (filter (\<lambda>item. Namespace (metadata item) = Namespace (configmap_metadata cm) \<and>
                          DatabaseSpec.ConfigMapName (spec item) = Name (configmap_metadata cm))
             (objects d)))"
  by (simp add: findObjectsForConfigMap_def findDatabasesForConfigMap_def client_List_served
      findObjectsForConfigMap_requests_filter findDatabasesForConfigMap_requests_filter
      conj_commute)

theorem requests_for_ConfigMap_witness:
  "faults (cluster [sample_MyResource,
                    renamed ''second'' (sample_MyResource\<lparr>spec := (spec sample_MyResource)\<lparr>
                      MyResourceSpec.ConfigMapName := ''other''\<rparr>\<rparr>),
                    moved ''prod'' sample_MyResource] all_served) 0 = None \<and>
   fst (findObjectsForConfigMap sample_ConfigMap
          (cluster [sample_MyResource,
                    renamed ''second'' (sample_MyResource\<lparr>spec := (spec sample_MyResource)\<lparr>
                      MyResourceSpec.ConfigMapName := ''other''\<rparr>\<rparr>),
                    moved ''prod'' sample_MyResource] all_served)) = [sample_key] \<and>
   fst (findDatabasesForConfigMap sample_ConfigMap
          (cluster [moved ''prod'' sample_Database, sample_Database,
                    renamed ''replica'' sample_Database] all_served)) =
     [sample_key, NamespacedName ''default'' ''replica'']"
proof -
  let ?c = "cluster [sample_MyResource,
                    renamed ''second'' (sample_MyResource\<lparr>spec := (spec sample_MyResource)\<lparr>
                      MyResourceSpec.ConfigMapName := ''other''\<rparr>\<rparr>),
                    moved ''prod'' sample_MyResource] all_served"
  let ?d = "cluster [moved ''prod'' sample_Database, sample_Database,
                    renamed ''replica'' sample_Database] all_served"
  have h1: "faults ?c (length (calls ?c)) = None" and h2: "faults ?d (length (calls ?d)) = None"
    by (simp_all add: cluster_def all_served_def)
  from requests_for_ConfigMap [of ?c sample_ConfigMap ?d] h1 h2
  have "fst (findObjectsForConfigMap sample_ConfigMap ?c) = [sample_key] \<and>
        fst (findDatabasesForConfigMap sample_ConfigMap ?d) =
          [sample_key, NamespacedName ''default'' ''replica'']"
    by (simp add: sample_defs sample_ConfigMap_def renamed_def moved_def key_of_def)
  moreover have "faults ?c 0 = None" by (simp add: cluster_def all_served_def)
  ultimately show ?thesis by blast
qed

section \<open>Observed generation and generation\<close>

lemma lookup_in_set: "lookup k objs = Some s \<Longrightarrow> s \<in> set objs"
  by (induction objs) (auto simp: lookup_def split: if_splits)

lemma store_list_all:
  "lookup k objs = Some s \<Longrightarrow> P (f s) \<Longrightarrow> list_all P objs \<Longrightarrow> list_all P (store k f objs)"
  by (induction objs) (auto simp: lookup_def split: if_splits)

lemma lookup_store_same:
  "lookup k objs = Some s \<Longrightarrow> key_of (f s) = k \<Longrightarrow> lookup k (store k f objs) = Some (f s)"
  by (rule lookup_store)

text \<open>Each request of the client keeps the tracked state.\<close>

lemma tracked_Status_Update:
  assumes t: "tracked observed g req n c" and k: "key_of obj = req"
    and g: "Generation (metadata obj) = g" and le: "sint (observed (status obj)) \<le> sint g"
  shows "tracked observed g req n (snd (client_Status_Update obj c))"
proof -
  have okobj: "observed_ok observed obj" using g le by (simp add: observed_ok_def)
  show ?thesis
  proof (cases "faults c (length (calls c))")
    case (Some err)
    with t okobj show ?thesis
      by (simp add: tracked_def client_Status_Update_def issue_def)
  next
    case None
    show ?thesis
    proof (cases "lookup req (objects c)")
      case gone: None
      with t okobj None k show ?thesis
        by (simp add: tracked_def client_Status_Update_def issue_def)
    next
      case (Some stored)
      with t have s: "lookup req (objects c) = Some stored" "Generation (metadata stored) = g"
        by (simp_all add: tracked_def)
      have oknew: "observed_ok observed (stored\<lparr>status := status obj\<rparr>)"
        using s le by (simp add: observed_ok_def)
      have keynew: "key_of (stored\<lparr>status := status obj\<rparr>) = req"
        using lookup_key [OF s(1)] by simp
      from None t okobj s k show ?thesis
        using store_list_all [OF s(1), of "observed_ok observed" "\<lambda>stored. stored\<lparr>status := status obj\<rparr>"]
          lookup_store [OF s(1), of "\<lambda>stored. stored\<lparr>status := status obj\<rparr>"] oknew keynew
        by (simp add: tracked_def client_Status_Update_def issue_def)
    qed
  qed
qed

lemma tracked_Update:
  assumes t: "tracked observed g req n c" and k: "key_of obj = req"
    and g: "Generation (metadata obj) = g"
  shows "tracked observed g req n (snd (client_Update obj c))"
proof (cases "faults c (length (calls c))")
  case (Some err)
  with t show ?thesis
    by (simp add: tracked_def client_Update_def issue_def)
next
  case None
  show ?thesis
  proof (cases "lookup req (objects c)")
    case gone: None
    with t None k show ?thesis
      by (simp add: tracked_def client_Update_def issue_def)
  next
    case (Some stored)
    with t have s: "lookup req (objects c) = Some stored" "Generation (metadata stored) = g"
      by (simp_all add: tracked_def)
    from t s have "observed_ok observed stored"
      using lookup_in_set [OF s(1)] by (auto simp: tracked_def list_all_iff)
    then have oknew: "observed_ok observed (obj\<lparr>status := status stored\<rparr>)"
      using s g by (simp add: observed_ok_def)
    have keynew: "key_of (obj\<lparr>status := status stored\<rparr>) = req"
      using k by simp
    show ?thesis
    proof (cases "\<not> IsZero (DeletionTimestamp (metadata obj)) \<and> Finalizers (metadata obj) = []")
      case True
      with None t s k show ?thesis
        by (simp add: tracked_def client_Update_def issue_def lookup_erase erase_list_all)
    next
      case False
      with None t s k g show ?thesis
        using store_list_all [OF s(1), of "observed_ok observed" "\<lambda>stored. obj\<lparr>status := status stored\<rparr>"]
          lookup_store [OF s(1), of "\<lambda>stored. obj\<lparr>status := status stored\<rparr>"] oknew keynew
        by (auto simp: tracked_def client_Update_def issue_def)
    qed
  qed
qed

lemma tracked_CreateOrPatch:
  "tracked observed g req n c \<Longrightarrow> tracked observed g req n (snd (CreateOrPatch kind k c))"
  by (simp add: tracked_def CreateOrPatch_def issue_def split: option.splits)

lemma tracked_Get_Deployment:
  "tracked observed g req n c \<Longrightarrow> tracked observed g req n (snd (client_Get_Deployment k c))"
  by (simp add: tracked_def client_Get_Deployment_def issue_def split: option.splits)

lemma tracked_Get:
  assumes "list_all (observed_ok observed) (objects c)"
    and "lookup req (objects c) = Some obj"
  shows "tracked observed (Generation (metadata obj)) req (length (calls c))
           (c\<lparr>calls := calls c @ [CallGet req]\<rparr>)"
  using assms by (simp add: tracked_def)

lemma tracked_kept:
  "tracked observed g req (length (calls c)) c' \<Longrightarrow>
   list_all (status_write_ok (observed_ok observed)) (new_calls c c') \<and>
   list_all (observed_ok observed) (objects c')"
  by (simp add: tracked_def new_calls_def split: option.splits)

lemma Generation_AddFinalizer [simp]:
  "Generation (metadata (AddFinalizer obj f)) = Generation (metadata obj)"
  by (simp add: AddFinalizer_def)

lemma Generation_RemoveFinalizer [simp]:
  "Generation (metadata (RemoveFinalizer obj f)) = Generation (metadata obj)"
  by (simp add: RemoveFinalizer_def)

subsection \<open>\<open>MyResourceReconciler\<close>\<close>

lemma MyResource_reconcileLogic_tracked:
  assumes "MyResourceReconciler_reconcileLogic inst c = ((e, inst'), c')"
    and "tracked observed g req n c"
  shows "tracked observed g req n c' \<and> metadata inst' = metadata inst \<and>
         MyResourceStatus.ObservedGeneration (status inst') =
         MyResourceStatus.ObservedGeneration (status inst)"
proof -
  from assms(1) have c': "c' = snd (CreateOrPatch ''Deployment'' (key_of inst) c)"
    by (auto simp: MyResourceReconciler_reconcileLogic_def split: prod.splits option.splits)
  from assms(1) have "metadata inst' = metadata inst \<and>
         MyResourceStatus.ObservedGeneration (status inst') =
         MyResourceStatus.ObservedGeneration (status inst)"
    by (auto simp: MyResourceReconciler_reconcileLogic_def split: prod.splits option.splits)
  with c' assms(2) show ?thesis by (simp add: tracked_CreateOrPatch)
qed

lemma MyResource_updateStatus_tracked:
  assumes "MyResourceReconciler_updateStatus now inst st reason message c = (inst', c')"
    and "tracked MyResourceStatus.ObservedGeneration g req n c"
    and "key_of inst = req" and "Generation (metadata inst) = g"
    and "sint (MyResourceStatus.ObservedGeneration (status inst)) \<le> sint g"
  shows "tracked MyResourceStatus.ObservedGeneration g req n c'"
proof -
  let ?i = "(MyResource_SetCondition now inst ''Ready'' st reason message)
              \<lparr>status := (status (MyResource_SetCondition now inst ''Ready'' st reason message))
                 \<lparr>LastUpdated := Some now\<rparr>\<rparr>"
  from assms(1) have c': "c' = snd (client_Status_Update ?i c)"
    by (auto simp: MyResourceReconciler_updateStatus_def Let_def split: prod.splits)
  have "key_of ?i = req" "Generation (metadata ?i) = g"
    "sint (MyResourceStatus.ObservedGeneration (status ?i)) \<le> sint g"
    using assms(3-5) by (simp_all add: MyResource_SetCondition_def key_of_def)
  with assms(2) show ?thesis unfolding c' by (intro tracked_Status_Update)
qed

lemma MyResource_reconcileDelete_tracked:
  assumes "tracked observed g req n c" and "key_of inst = req"
    and "Generation (metadata inst) = g"
  shows "tracked observed g req n (snd (MyResourceReconciler_reconcileDelete cleanup inst c))"
proof -
  let ?i = "RemoveFinalizer inst finalizerName"
  have u: "tracked observed g req n (snd (client_Update ?i c))"
    using assms by (intro tracked_Update) simp_all
  show ?thesis
    using assms(1) u
    by (auto simp: MyResourceReconciler_reconcileDelete_def Let_def
        split: option.splits prod.splits)
qed

lemma MyResource_Reconcile_keeps_invariant:
  "generation_invariant_kept MyResourceStatus.ObservedGeneration c
     (MyResourceReconciler_Reconcile cleanup now req c)"
  unfolding generation_invariant_kept_def
proof
  let ?obs = "MyResourceStatus.ObservedGeneration"
  let ?r = "MyResourceReconciler_Reconcile cleanup now req c"
  assume ok: "list_all (observed_ok ?obs) (objects c)"
  show "list_all (status_write_ok (observed_ok ?obs)) (new_calls c (snd ?r)) \<and>
        list_all (observed_ok ?obs) (objects (snd ?r))"
  proof (cases "fst (client_Get req c)")
    case (Inl err)
    then obtain c1 where g: "client_Get req c = (Inl err, c1)"
      by (cases "client_Get req c") auto
    then have "c1 = snd (client_Get req c)" by simp
    then have "calls c1 = calls c @ [CallGet req]" "objects c1 = objects c"
      by (simp_all add: client_Get_calls client_Get_objects)
    with ok show ?thesis
      by (simp add: MyResourceReconciler_Reconcile_def g new_calls_def)
  next
    case (Inr inst)
    then obtain c1 where g: "client_Get req c = (Inr inst, c1)"
      by (cases "client_Get req c") auto
    from client_Get_Inr [OF g] have lk: "lookup req (objects c) = Some inst"
      and c1: "c1 = c\<lparr>calls := calls c @ [CallGet req]\<rparr>" by simp_all
    let ?g = "Generation (metadata inst)"
    have t1: "tracked ?obs ?g req (length (calls c)) c1"
      unfolding c1 using ok lk by (rule tracked_Get)
    have key: "key_of inst = req" using lk by (rule lookup_key)
    have le: "sint (?obs (status inst)) \<le> sint ?g"
      using ok lookup_in_set [OF lk] by (auto simp: list_all_iff observed_ok_def)
    have "tracked ?obs ?g req (length (calls c)) (snd ?r)"
    proof (cases "\<not> IsZero (DeletionTimestamp (metadata inst))")
      case True
      then show ?thesis
        using MyResource_reconcileDelete_tracked [OF t1 key refl, of cleanup]
        by (simp add: MyResourceReconciler_Reconcile_def g)
    next
      case live: False
      show ?thesis
      proof (cases "ContainsFinalizer inst finalizerName")
        case False
        have "tracked ?obs ?g req (length (calls c))
                (snd (client_Update (AddFinalizer inst finalizerName) c1))"
          using t1 key by (intro tracked_Update) simp_all
        with live False show ?thesis
          by (auto simp: MyResourceReconciler_Reconcile_def g Let_def
              split: prod.splits option.splits)
      next
        case True
        let ?i = "inst\<lparr>status := (status inst)\<lparr>MyResourceStatus.ObservedGeneration := ?g\<rparr>\<rparr>"
        obtain e i2 c2 where l: "MyResourceReconciler_reconcileLogic ?i c1 = ((e, i2), c2)"
          by (metis prod.exhaust)
        from MyResource_reconcileLogic_tracked [OF l t1]
        have t2: "tracked ?obs ?g req (length (calls c)) c2"
          and m2: "metadata i2 = metadata inst" and o2: "?obs (status i2) = ?g"
          by simp_all
        have k2: "key_of i2 = req" using key m2 by (simp add: key_of_def)
        have fin: "tracked ?obs ?g req (length (calls c)) c3"
          if "MyResourceReconciler_updateStatus now i2 st reason message c2 = (i3, c3)"
          for st reason message i3 c3
          using that t2 k2 m2 o2
          by (intro MyResource_updateStatus_tracked [of now i2 st reason message c2 i3 c3]) simp_all
        from live True l show ?thesis
          by (auto simp: MyResourceReconciler_Reconcile_def g Let_def
              split: prod.splits option.splits dest: fin)
      qed
    qed
    then show ?thesis by (rule tracked_kept)
  qed
qed

subsection \<open>\<open>DatabaseReconciler\<close>\<close>

lemma Database_reconcileDelete_tracked:
  assumes "tracked observed g req n c" and "key_of inst = req"
    and "Generation (metadata inst) = g"
  shows "tracked observed g req n (snd (DatabaseReconciler_reconcileDelete inst c))"
proof -
  let ?i = "RemoveFinalizer inst databaseFinalizer"
  have u: "tracked observed g req n (snd (client_Update ?i c))"
    using assms by (intro tracked_Update) simp_all
  show ?thesis
    using assms(1) u
    by (auto simp: DatabaseReconciler_reconcileDelete_def Let_def
        split: option.splits prod.splits)
qed

lemma Database_children_tracked:
  assumes "tracked observed g req n c"
  shows "tracked observed g req n (snd (DatabaseReconciler_reconcilePVC database c))"
    and "tracked observed g req n (snd (DatabaseReconciler_reconcileSecret database c))"
    and "tracked observed g req n (snd (DatabaseReconciler_reconcileConfigMap database c))"
    and "tracked observed g req n (snd (DatabaseReconciler_reconcileDeployment database c))"
    and "tracked observed g req n (snd (DatabaseReconciler_reconcileService database c))"
  using assms
  by (simp_all add: DatabaseReconciler_reconcilePVC_def DatabaseReconciler_reconcileSecret_def
      DatabaseReconciler_reconcileConfigMap_def DatabaseReconciler_reconcileDeployment_def
      DatabaseReconciler_reconcileService_def Let_def tracked_CreateOrPatch)

lemma Database_SetCondition_keeps [simp]:
  "key_of (Database_SetCondition now d t st r m) = key_of d"
  "metadata (Database_SetCondition now d t st r m) = metadata d"
  "DatabaseStatus.ObservedGeneration (status (Database_SetCondition now d t st r m)) =
   DatabaseStatus.ObservedGeneration (status d)"
  by (simp_all add: Database_SetCondition_def)

lemma Database_setErrorStatus_tracked:
  assumes "tracked DatabaseStatus.ObservedGeneration g req n c"
    and "key_of database = req" and "Generation (metadata database) = g"
    and "sint (DatabaseStatus.ObservedGeneration (status database)) \<le> sint g"
  shows "tracked DatabaseStatus.ObservedGeneration g req n
           (snd (DatabaseReconciler_setErrorStatus now database reason err c))"
proof -
  let ?d = "Database_SetCondition now
              (database\<lparr>status := (status database)\<lparr>DatabaseStatus.Phase := ''Failed''\<rparr>\<rparr>)
              ''Ready'' ConditionFalse reason (Error err)"
  have "key_of ?d = req" "Generation (metadata ?d) = g"
    "sint (DatabaseStatus.ObservedGeneration (status ?d)) \<le> sint g"
    using assms(2-4) by simp_all
  with assms(1)
  have "tracked DatabaseStatus.ObservedGeneration g req n (snd (client_Status_Update ?d c))"
    by (intro tracked_Status_Update)
  then show ?thesis
    by (simp add: DatabaseReconciler_setErrorStatus_def Let_def case_prod_beta)
qed

lemma Database_updateStatus_tracked:
  assumes t: "tracked DatabaseStatus.ObservedGeneration g req n c"
    and k: "key_of database = req" and g: "Generation (metadata database) = g"
  shows "tracked DatabaseStatus.ObservedGeneration g req n
           (snd (DatabaseReconciler_updateStatus now database c))"
proof -
  let ?g = "Generation (metadata database)" and ?k = "key_of database"
  let ?c1 = "snd (client_Get_Deployment ?k c)"
  from t k g have t1: "tracked DatabaseStatus.ObservedGeneration ?g ?k n ?c1"
    by (simp add: tracked_Get_Deployment)
  have w: "tracked DatabaseStatus.ObservedGeneration ?g ?k n (snd (client_Status_Update d' ?c1))"
    if "key_of d' = ?k" "Generation (metadata d') = ?g"
      "DatabaseStatus.ObservedGeneration (status d') = ?g" for d'
    using t1 that by (intro tracked_Status_Update) simp_all
  have "tracked DatabaseStatus.ObservedGeneration ?g ?k n
           (snd (DatabaseReconciler_updateStatus now database c))"
    using t1
    by (auto simp: DatabaseReconciler_updateStatus_def Let_def case_prod_beta
        split: sum.splits intro!: w)
  with k g show ?thesis by simp
qed

lemma Database_Reconcile_keeps_invariant:
  "generation_invariant_kept DatabaseStatus.ObservedGeneration c
     (DatabaseReconciler_Reconcile now req c)"
  unfolding generation_invariant_kept_def
proof
  let ?obs = "DatabaseStatus.ObservedGeneration"
  let ?r = "DatabaseReconciler_Reconcile now req c"
  assume ok: "list_all (observed_ok ?obs) (objects c)"
  show "list_all (status_write_ok (observed_ok ?obs)) (new_calls c (snd ?r)) \<and>
        list_all (observed_ok ?obs) (objects (snd ?r))"
  proof (cases "fst (client_Get req c)")
    case (Inl err)
    then obtain c1 where g: "client_Get req c = (Inl err, c1)"
      by (cases "client_Get req c") auto
    then have "c1 = snd (client_Get req c)" by simp
    then have "calls c1 = calls c @ [CallGet req]" "objects c1 = objects c"
      by (simp_all add: client_Get_calls client_Get_objects)
    with ok show ?thesis
      by (simp add: DatabaseReconciler_Reconcile_def g new_calls_def)
  next
    case (Inr inst)
    then obtain c1 where g: "client_Get req c = (Inr inst, c1)"
      by (cases "client_Get req c") auto
    from client_Get_Inr [OF g] have lk: "lookup req (objects c) = Some inst"
      and c1: "c1 = c\<lparr>calls := calls c @ [CallGet req]\<rparr>" by simp_all
    let ?g = "Generation (metadata inst)"
    let ?n = "length (calls c)"
    have t1: "tracked ?obs ?g req ?n c1"
      unfolding c1 using ok lk by (rule tracked_Get)
    have key: "key_of inst = req" using lk by (rule lookup_key)
    have le: "sint (?obs (status inst)) \<le> sint ?g"
      using ok lookup_in_set [OF lk] by (auto simp: list_all_iff observed_ok_def)
    have "tracked ?obs ?g req ?n (snd ?r)"
    proof (cases "\<not> IsZero (DeletionTimestamp (metadata inst))")
      case True
      then show ?thesis
        using Database_reconcileDelete_tracked [OF t1 key refl]
        by (simp add: DatabaseReconciler_Reconcile_def g)
    next
      case live: False
      show ?thesis
      proof (cases "ContainsFinalizer inst databaseFinalizer")
        case False
        have "tracked ?obs ?g req ?n (snd (client_Update (AddFinalizer inst databaseFinalizer) c1))"
          using t1 key by (intro tracked_Update) simp_all
        with live False show ?thesis
          by (simp add: DatabaseReconciler_Reconcile_def g Let_def case_prod_beta
              split: option.splits)
      next
        case True
        let ?d = "inst\<lparr>status := (status inst)\<lparr>DatabaseStatus.Phase := ''Reconciling''\<rparr>\<rparr>"
        have kd: "key_of ?d = req" and gd: "Generation (metadata ?d) = ?g"
          and led: "sint (?obs (status ?d)) \<le> sint ?g"
          using key le by simp_all
        let ?c2 = "snd (client_Status_Update ?d c1)"
        let ?c3 = "snd (DatabaseReconciler_reconcilePVC ?d ?c2)"
        let ?c4 = "snd (DatabaseReconciler_reconcileSecret ?d ?c3)"
        let ?c5 = "snd (DatabaseReconciler_reconcileConfigMap ?d ?c4)"
        let ?c6 = "snd (DatabaseReconciler_reconcileDeployment ?d ?c5)"
        let ?c7 = "snd (DatabaseReconciler_reconcileService ?d ?c6)"
        have t2: "tracked ?obs ?g req ?n ?c2"
          using t1 kd gd led by (rule tracked_Status_Update)
        have t3: "tracked ?obs ?g req ?n ?c3" using t2 by (rule Database_children_tracked)
        have t4: "tracked ?obs ?g req ?n ?c4" using t3 by (rule Database_children_tracked)
        have t5: "tracked ?obs ?g req ?n ?c5" using t4 by (rule Database_children_tracked)
        have t6: "tracked ?obs ?g req ?n ?c6" using t5 by (rule Database_children_tracked)
        have t7: "tracked ?obs ?g req ?n ?c7" using t6 by (rule Database_children_tracked)
        have failed: "tracked ?obs ?g req ?n
                        (snd (DatabaseReconciler_setErrorStatus now ?d reason err c'))"
          if "tracked ?obs ?g req ?n c'" for reason err c'
          using that kd gd led by (rule Database_setErrorStatus_tracked)
        have finished: "tracked ?obs ?g req ?n (snd (DatabaseReconciler_updateStatus now ?d ?c7))"
          using t7 kd gd by (rule Database_updateStatus_tracked)
        from live True show ?thesis
          by (simp add: DatabaseReconciler_Reconcile_def g Let_def case_prod_beta
              failed t3 t4 t5 t6 t7 finished split: option.splits)
      qed
    qed
    then show ?thesis by (rule tracked_kept)
  qed
qed

text \<open>
  C8. Every status write of a reconcile call keeps \<open>observedGeneration \<le> generation\<close>:
  if the stored objects satisfy it before the call, then every status update the call
  issues carries an object that satisfies it, and the stored objects satisfy it after
  the call. The only assignment to \<open>ObservedGeneration\<close> copies the generation of the
  object.
\<close>

theorem status_writes_keep_observed_generation:
  "generation_invariant_kept MyResourceStatus.ObservedGeneration c
     (MyResourceReconciler_Reconcile cleanup now req c) \<and>
   generation_invariant_kept DatabaseStatus.ObservedGeneration d
     (DatabaseReconciler_Reconcile now req d)"
  by (simp add: MyResource_Reconcile_keeps_invariant Database_Reconcile_keeps_invariant)

lemmas reconciler_defs =
  MyResourceReconciler_Reconcile_def MyResourceReconciler_reconcileLogic_def
  MyResourceReconciler_updateStatus_def MyResourceReconciler_reconcileDelete_def
  MyResourceReconciler_getRequeueInterval_def MyResource_SetCondition_def MyResource_IsReady_def
  DatabaseReconciler_Reconcile_def DatabaseReconciler_reconcileDelete_def
  DatabaseReconciler_reconcilePVC_def DatabaseReconciler_reconcileSecret_def
  DatabaseReconciler_reconcileConfigMap_def DatabaseReconciler_reconcileDeployment_def
  DatabaseReconciler_reconcileService_def DatabaseReconciler_updateStatus_def
  DatabaseReconciler_setErrorStatus_def Database_SetCondition_def Database_IsReady_def
  SetCondition_def IsReady_def GetCondition_def

theorem status_writes_keep_observed_generation_witness:
  "list_all (observed_ok MyResourceStatus.ObservedGeneration)
     (objects (cluster [AddFinalizer sample_MyResource finalizerName] all_served)) \<and>
   list_all (observed_ok MyResourceStatus.ObservedGeneration)
     (objects (snd (MyResourceReconciler_Reconcile cleanupExternalResources 7 sample_key
        (cluster [AddFinalizer sample_MyResource finalizerName] all_served)))) \<and>
   map (\<lambda>obj. MyResourceStatus.ObservedGeneration (status obj))
     (objects (snd (MyResourceReconciler_Reconcile cleanupExternalResources 7 sample_key
        (cluster [AddFinalizer sample_MyResource finalizerName] all_served)))) = [1] \<and>
   list_all (observed_ok DatabaseStatus.ObservedGeneration)
     (objects (cluster [AddFinalizer sample_Database databaseFinalizer] all_served)) \<and>
   list_all (observed_ok DatabaseStatus.ObservedGeneration)
     (objects (snd (DatabaseReconciler_Reconcile 7 sample_key
        (cluster [AddFinalizer sample_Database databaseFinalizer] all_served)))) \<and>
   map (\<lambda>obj. DatabaseStatus.ObservedGeneration (status obj))
     (objects (snd (DatabaseReconciler_Reconcile 7 sample_key
        (cluster [AddFinalizer sample_Database databaseFinalizer] all_served)))) = [1]"
proof -
  let ?c = "cluster [AddFinalizer sample_MyResource finalizerName] all_served"
  let ?d = "cluster [AddFinalizer sample_Database databaseFinalizer] all_served"
  have h1: "list_all (observed_ok MyResourceStatus.ObservedGeneration) (objects ?c)"
    by (simp add: observed_ok_def sample_defs finalizer_defs)
  have h2: "list_all (observed_ok DatabaseStatus.ObservedGeneration) (objects ?d)"
    by (simp add: observed_ok_def sample_defs finalizer_defs)
  from status_writes_keep_observed_generation
    [of ?c cleanupExternalResources 7 sample_key ?d] h1 h2
  have k: "list_all (observed_ok MyResourceStatus.ObservedGeneration)
        (objects (snd (MyResourceReconciler_Reconcile cleanupExternalResources 7 sample_key ?c))) \<and>
      list_all (observed_ok DatabaseStatus.ObservedGeneration)
        (objects (snd (DatabaseReconciler_Reconcile 7 sample_key ?d)))"
    by (simp add: generation_invariant_kept_def)
  have e1: "map (\<lambda>obj. MyResourceStatus.ObservedGeneration (status obj))
     (objects (snd (MyResourceReconciler_Reconcile cleanupExternalResources 7 sample_key ?c))) = [1]"
    by (simp add: reconciler_defs Let_def sample_defs client_defs finalizer_defs)
  have e2: "map (\<lambda>obj. DatabaseStatus.ObservedGeneration (status obj))
     (objects (snd (DatabaseReconciler_Reconcile 7 sample_key ?d))) = [1]"
    by (simp add: reconciler_defs Let_def sample_defs client_defs finalizer_defs)
  from h1 h2 k e1 e2 show ?thesis by blast
qed

section \<open>Decimal text: reading back what was printed\<close>

lemma digit_char_value: "d < 10 \<Longrightarrow> digit_value (digit_char d) = d"
  by (simp add: digit_value_def digit_char_def)

lemma digit_char_is_digit: "d < 10 \<Longrightarrow> is_digit (digit_char d)"
  by (simp add: is_digit_def digit_char_def)

lemma decimal_digits: "\<forall>ch\<in>set (decimal n). is_digit ch"
proof (induction n rule: decimal.induct)
  case (1 n)
  show ?case
  proof (cases "n < 10")
    case True
    then show ?thesis by (subst decimal.simps) (simp add: digit_char_is_digit)
  next
    case False
    with 1 show ?thesis by (subst decimal.simps) (simp add: digit_char_is_digit)
  qed
qed

lemma decimal_not_empty: "decimal n \<noteq> []"
  by (subst decimal.simps) simp

lemma number_snoc: "number (ds @ [ch]) = 10 * number ds + digit_value ch"
  by (simp add: number_def)

lemma number_decimal: "number (decimal n) = n"
proof (induction n rule: decimal.induct)
  case (1 n)
  show ?case
  proof (cases "n < 10")
    case True
    then show ?thesis
      by (subst decimal.simps) (simp add: number_def digit_char_value)
  next
    case False
    with 1 show ?thesis
      by (subst decimal.simps) (simp add: number_snoc digit_char_value)
  qed
qed

lemma takeWhile_decimal: "takeWhile is_digit (decimal n) = decimal n"
  using decimal_digits [of n] by simp

lemma decimal_unsigned:
  obtains ch t where "decimal n = ch # t" "ch \<noteq> CHR ''-''" "ch \<noteq> CHR ''+''"
proof -
  obtain ch t where d: "decimal n = ch # t"
    using decimal_not_empty [of n] by (cases "decimal n") auto
  with decimal_digits [of n] have "is_digit ch" by simp
  then have "ch \<noteq> CHR ''-''" "ch \<noteq> CHR ''+''"
    by (auto simp: is_digit_def)
  with d show ?thesis by (rule that)
qed

text \<open>A string that starts with a digit or a sign has no blank in front.\<close>

lemma SkipSpace_digit: "is_digit ch \<Longrightarrow> SkipSpace (ch # t) = Some (ch # t)"
  by (subst SkipSpace.simps) (auto simp: space_width_def is_digit_def split: list.splits)

lemma SkipSpace_minus: "SkipSpace (CHR ''-'' # t) = Some (CHR ''-'' # t)"
  by (subst SkipSpace.simps) (auto simp: space_width_def split: list.splits)

lemma SkipSpace_decimal: "SkipSpace (decimal n) = Some (decimal n)"
proof -
  obtain ch t where d: "decimal n = ch # t"
    using decimal_not_empty [of n] by (cases "decimal n") auto
  with decimal_digits [of n] have "is_digit ch" by simp
  with d show ?thesis by (simp add: SkipSpace_digit)
qed

text \<open>\<open>Sscanf\<close> reads back every count that \<open>Sprintf\<close> printed.\<close>

lemma Sscanf_Sprintf: "Sscanf_d (Sprintf_d n) = Some n"
proof (cases "sint n < 0")
  case True
  have "- (2 ^ 63) \<le> sint n" using sint_ge [of n] by simp
  with True show ?thesis
    by (simp add: Sscanf_d_def Sprintf_d_def SkipSpace_minus takeWhile_decimal number_decimal
        decimal_not_empty Let_def)
next
  case False
  obtain ch t where d: "decimal (nat (sint n)) = ch # t" "ch \<noteq> CHR ''-''" "ch \<noteq> CHR ''+''"
    by (rule decimal_unsigned)
  have "sint n < 2 ^ 63" using sint_lt [of n] by simp
  with False d show ?thesis
    using takeWhile_decimal [of "nat (sint n)"] number_decimal [of "nat (sint n)"]
      SkipSpace_decimal [of "nat (sint n)"]
    by (simp add: Sscanf_d_def Sprintf_d_def Let_def)
qed

text \<open>Blanks in front of the count are discarded; a newline in front of it is an error.\<close>

lemma Sscanf_blank:
  "Sscanf_d '' 5'' = Some 5"
  "Sscanf_d [CHR 0x09, CHR 0xC2, CHR 0xA0, CHR ''5''] = Some 5"
  "Sscanf_d [CHR 0x0A, CHR ''5''] = None"
  by (simp_all add: Sscanf_d_def SkipSpace.simps space_width_def is_digit_def number_def
      digit_value_def Let_def)

section \<open>Retry with backoff\<close>

lemma annotation_set [simp]: "annotation (set_annotation obj k v) k = Some v"
  by (simp add: annotation_def set_annotation_def)

lemma read_retryCount_written [simp]:
  "read_retryCount (set_annotation obj retryCountKey (Sprintf_d n)) = n"
  by (simp add: read_retryCount_def Sscanf_Sprintf)

lemma Sscanf_zero: "Sscanf_d ''0'' = Some 0"
  by (simp add: Sscanf_d_def SkipSpace.simps space_width_def is_digit_def number_def
      digit_value_def Let_def)

lemma read_retryCount_reset [simp]:
  "read_retryCount (set_annotation obj retryCountKey ''0'') = 0"
  by (simp add: read_retryCount_def Sscanf_zero)

lemma set_annotation_keeps [simp]:
  "key_of (set_annotation obj k v) = key_of obj"
  "status (set_annotation obj k v) = status obj"
  "DeletionTimestamp (metadata (set_annotation obj k v)) = DeletionTimestamp (metadata obj)"
  "Finalizers (metadata (set_annotation obj k v)) = Finalizers (metadata obj)"
  by (simp_all add: set_annotation_def key_of_def)

lemma stored_after_set_annotation:
  "stored_after obj = Some obj \<Longrightarrow>
   stored_after (set_annotation obj k v) = Some (set_annotation obj k v)"
  by (simp add: stored_after_def split: if_splits)

text \<open>One failing attempt.\<close>

lemma ReconcileWithRetry_failure:
  assumes lk: "lookup req (objects c) = Some inst"
    and served: "faults c (length (calls c)) = None"
    and fails: "logic inst = Some err"
  shows "retry_outcome err inst c (ReconcileWithRetry logic req c)"
proof -
  let ?n = "read_retryCount inst"
  let ?i = "set_annotation inst retryCountKey (Sprintf_d (?n + 1))"
  have key: "key_of ?i = req" using lookup_key [OF lk] by simp
  have st: "status ?i = status inst" by simp
  note upd = update_after_get [OF lk key] and sto = stored_after_update [OF lk key st]
  have k: "key_of inst = req" using lk by (rule lookup_key)
  show ?thesis
    using lk served fails
    by (simp add: retry_outcome_def ReconcileWithRetry_def client_Get_served upd Let_def k
        Recorder_Event_def sto split: option.splits)
qed

text \<open>One successful attempt.\<close>

lemma ReconcileWithRetry_success:
  assumes lk: "lookup req (objects c) = Some inst"
    and served: "faults c (length (calls c)) = None"
    and succeeds: "logic inst = None"
  shows "fst (ReconcileWithRetry logic req c) =
           (\<lparr>Requeue = False, RequeueAfter = 5 * Minute\<rparr>, None)"
    and "0 < sint (read_retryCount inst) \<Longrightarrow> faults c (Suc (length (calls c))) = None \<Longrightarrow>
         lookup req (objects (snd (ReconcileWithRetry logic req c))) =
           stored_after (set_annotation inst retryCountKey ''0'')"
    and "0 < sint (read_retryCount inst) \<Longrightarrow> faults c (Suc (length (calls c))) = Some e \<Longrightarrow>
         objects (snd (ReconcileWithRetry logic req c)) = objects c"
    and "\<not> 0 < sint (read_retryCount inst) \<Longrightarrow>
         objects (snd (ReconcileWithRetry logic req c)) = objects c"
proof -
  let ?i = "set_annotation inst retryCountKey ''0''"
  have key: "key_of ?i = req" using lookup_key [OF lk] by simp
  have st: "status ?i = status inst" by simp
  note upd = update_after_get [OF lk key] and sto = stored_after_update [OF lk key st]
  show "fst (ReconcileWithRetry logic req c) =
           (\<lparr>Requeue = False, RequeueAfter = 5 * Minute\<rparr>, None)"
    using lk served succeeds
    by (simp add: ReconcileWithRetry_def client_Get_served upd Let_def split: option.splits)
  show "lookup req (objects (snd (ReconcileWithRetry logic req c))) = stored_after ?i"
    if "0 < sint (read_retryCount inst)" "faults c (Suc (length (calls c))) = None"
    using lk served succeeds that
    by (simp add: ReconcileWithRetry_def client_Get_served upd Let_def sto)
  show "objects (snd (ReconcileWithRetry logic req c)) = objects c"
    if "0 < sint (read_retryCount inst)" "faults c (Suc (length (calls c))) = Some e"
    using lk served succeeds that
    by (simp add: ReconcileWithRetry_def client_Get_served upd Let_def)
  show "objects (snd (ReconcileWithRetry logic req c)) = objects c"
    if "\<not> 0 < sint (read_retryCount inst)"
    using lk served succeeds that
    by (simp add: ReconcileWithRetry_def client_Get_served Let_def)
qed

subsection \<open>The delay\<close>

lemma count_cases:
  assumes "0 \<le> sint (n :: int64)" and "sint n \<le> 33"
  shows "n \<in> set (map of_nat [0..<34])"
proof -
  from assms have "nat (sint n) \<in> set [0..<34]" by simp
  moreover have "n = of_nat (nat (sint n))" using assms(1) by simp
  ultimately show ?thesis by (metis imageI list.set_map)
qed

lemma backoff_upto_33: "\<forall>k\<in>set [0..<34]. sint (backoff (of_nat k)) = capped_delay k"
  by (simp add: upt_rec backoff_def capped_delay_def Second_def Minute_def)

lemma backoff_small:
  assumes "0 \<le> sint n" and "sint n \<le> 33"
  shows "sint (backoff n) = capped_delay (nat (sint n))"
proof -
  from assms have "nat (sint n) \<in> set [0..<34]" by simp
  with backoff_upto_33
  have "sint (backoff (of_nat (nat (sint n)))) = capped_delay (nat (sint n))" by blast
  moreover have "n = of_nat (nat (sint n))" using assms(1) by simp
  ultimately show ?thesis by simp
qed

lemma capped_delay_mono: "m \<le> n \<Longrightarrow> capped_delay m \<le> capped_delay n"
  by (simp add: capped_delay_def min_le_iff_disj)

lemma capped_delay_positive: "0 < capped_delay n"
  by (simp add: capped_delay_def)

lemma backoff_mono:
  assumes "0 \<le> sint m" and "sint m \<le> sint n" and "sint n \<le> 33"
  shows "sint (backoff m) \<le> sint (backoff n)"
proof -
  have "sint (backoff m) = capped_delay (nat (sint m))"
    using assms by (intro backoff_small) simp_all
  moreover have "sint (backoff n) = capped_delay (nat (sint n))"
    using assms by (intro backoff_small) simp_all
  moreover have "capped_delay (nat (sint m)) \<le> capped_delay (nat (sint n))"
    using assms by (intro capped_delay_mono) simp
  ultimately show ?thesis by simp
qed

lemma backoff_base: "backoff 0 = Second"
  by (simp add: backoff_def Second_def Minute_def)

text \<open>The increment of the count, away from the largest 64-bit integer.\<close>

lemma sint_succ: "sint (n :: int64) < 2 ^ 63 - 1 \<Longrightarrow> sint (n + 1) = sint n + 1"
  using sint_ge [of n]
  by (simp add: sint_word_ariths signed_take_bit_int_eq_self)

text \<open>A negative count is a shift count of \<open>2^63\<close> or more: every bit is shifted out.\<close>

lemma negative_uint:
  assumes "sint (n :: int64) < 0"
  shows "uint n = sint n + 2 ^ 64"
proof -
  have "uint n = sint n mod 2 ^ 64" by (simp add: uint_sint take_bit_eq_mod)
  also have "\<dots> = (sint n + 2 ^ 64) mod 2 ^ 64" by simp
  also have "\<dots> = sint n + 2 ^ 64"
    using sint_ge [of n] assms by (intro mod_pos_pos_trivial) simp_all
  finally show ?thesis .
qed

lemma negative_unat: "sint (n :: int64) < 0 \<Longrightarrow> \<not> unat n < 64"
  using negative_uint [of n] sint_ge [of n] by (simp add: unat_eq_nat_uint del: nat_uint_eq)

lemma backoff_negative: "sint n < 0 \<Longrightarrow> backoff n = 0"
  by (simp add: backoff_def negative_unat Minute_def Second_def del: unat_eq_nat_uint)

subsection \<open>One failing attempt, by the count it reads\<close>

lemma ReconcileWithRetry_delay:
  assumes "lookup req (objects c) = Some inst" and "faults c (length (calls c)) = None"
    and "logic inst = Some err"
    and "0 \<le> sint (read_retryCount inst)" and "sint (read_retryCount inst) \<le> 9"
  shows "fst (ReconcileWithRetry logic req c) =
           (\<lparr>Requeue = False, RequeueAfter = backoff (read_retryCount inst)\<rparr>, None)"
proof -
  have "sint (read_retryCount inst + 1) = sint (read_retryCount inst) + 1"
    using assms(5) by (intro sint_succ) simp
  with assms(5) have "\<not> 10 < sint (read_retryCount inst + 1)" by simp
  with ReconcileWithRetry_failure [of req c inst logic err] assms(1-3)
  show ?thesis by (simp add: retry_outcome_def Let_def)
qed

lemma ReconcileWithRetry_error:
  assumes "lookup req (objects c) = Some inst" and "faults c (length (calls c)) = None"
    and "logic inst = Some err"
    and "10 \<le> sint (read_retryCount inst)" and "sint (read_retryCount inst) \<le> 2 ^ 63 - 2"
  shows "fst (ReconcileWithRetry logic req c) = (Result_empty, Some err)"
proof -
  have "sint (read_retryCount inst + 1) = sint (read_retryCount inst) + 1"
    using assms(5) by (intro sint_succ) simp
  with assms(4) have "10 < sint (read_retryCount inst + 1)" by simp
  with ReconcileWithRetry_failure [of req c inst logic err] assms(1-3)
  show ?thesis by (simp add: retry_outcome_def Let_def)
qed

lemma ReconcileWithRetry_negative:
  assumes "lookup req (objects c) = Some inst" and "faults c (length (calls c)) = None"
    and "logic inst = Some err" and "sint (read_retryCount inst) < 0"
  shows "fst (ReconcileWithRetry logic req c) = (Result_empty, None)"
proof -
  have "sint (read_retryCount inst + 1) = sint (read_retryCount inst) + 1"
    using assms(4) by (intro sint_succ) simp
  with assms(4) have "\<not> 10 < sint (read_retryCount inst + 1)" by simp
  with ReconcileWithRetry_failure [of req c inst logic err] assms(1-3)
  show ?thesis by (simp add: retry_outcome_def Let_def backoff_negative assms(4) Result_empty_def)
qed

text \<open>
  At the largest count the shift count is \<open>2^63 - 1\<close>, the delay is 0 and the increment
  wraps to the smallest integer, which is not above 10.
\<close>

lemma ReconcileWithRetry_largest:
  assumes "lookup req (objects c) = Some inst" and "faults c (length (calls c)) = None"
    and "logic inst = Some err" and "read_retryCount inst = 9223372036854775807"
  shows "fst (ReconcileWithRetry logic req c) = (Result_empty, None)"
  using ReconcileWithRetry_failure [of req c inst logic err] assms
  by (simp add: retry_outcome_def Let_def backoff_def Second_def Minute_def Result_empty_def)

text \<open>
  From the count 0 up to the largest count that can be incremented, every failing
  attempt is requeued: after the backoff delay while the incremented count is at most
  10, through the returned error after that.
\<close>

lemma failing_attempt_requeued:
  assumes "lookup req (objects c) = Some inst" and "faults c (length (calls c)) = None"
    and "logic inst = Some err"
    and "0 \<le> sint (read_retryCount inst)" and "sint (read_retryCount inst) \<le> 2 ^ 63 - 2"
  shows "requeued (fst (ReconcileWithRetry logic req c))"
proof (cases "sint (read_retryCount inst) \<le> 9")
  case True
  have "0 < sint (backoff (read_retryCount inst))"
    using assms(4) True by (simp add: backoff_small capped_delay_positive)
  then show ?thesis
    using ReconcileWithRetry_delay [of req c inst logic err] assms True
    by (simp add: requeued_def)
next
  case False
  then have "10 \<le> sint (read_retryCount inst)" by simp
  then show ?thesis
    using ReconcileWithRetry_error [of req c inst logic err] assms
    by (simp add: requeued_def)
qed

subsection \<open>Runs of failing attempts\<close>

lemma ReconcileWithRetry_faults: "faults (snd (ReconcileWithRetry logic req c)) = faults c"
  by (simp add: ReconcileWithRetry_def client_Get_def client_Update_def issue_def Let_def
      Recorder_Event_def split: option.splits sum.splits)

text \<open>
  When every request is served and the logic keeps failing, the stored count grows by
  one with each attempt, as long as the object stays in the store.
\<close>

lemma failing_attempt_stored:
  assumes "\<forall>i. faults c i = None" and "logic inst = Some err"
    and "lookup req (objects c) = Some inst" and "stored_after inst = Some inst"
  shows "lookup req (objects (snd (ReconcileWithRetry logic req c))) =
           Some (set_annotation inst retryCountKey (Sprintf_d (read_retryCount inst + 1)))"
proof -
  have "retry_outcome err inst c (ReconcileWithRetry logic req c)"
    using assms by (intro ReconcileWithRetry_failure) simp_all
  moreover have "key_of inst = req" using assms(3) by (rule lookup_key)
  ultimately show ?thesis
    using assms(1,4) by (simp add: retry_outcome_def Let_def stored_after_set_annotation)
qed

text \<open>The \<open>j\<close>-th attempt of such a run sees the count \<open>n + j\<close>.\<close>

lemma attempts_failing:
  assumes "\<forall>i. faults c i = None" and "\<forall>obj. logic obj = Some err"
    and "lookup req (objects c) = Some inst" and "stored_after inst = Some inst"
  shows "fst (attempts k logic req c) =
     map (\<lambda>j. if 10 < sint (read_retryCount inst + of_nat j + 1)
               then (Result_empty, Some err)
               else (\<lparr>Requeue = False,
                      RequeueAfter = backoff (read_retryCount inst + of_nat j)\<rparr>, None))
       [0..<k]"
  using assms
proof (induction k arbitrary: c inst)
  case 0
  then show ?case by simp
next
  case (Suc k)
  let ?n = "read_retryCount inst"
  let ?r = "ReconcileWithRetry logic req c"
  let ?i = "set_annotation inst retryCountKey (Sprintf_d (?n + 1))"
  have out: "retry_outcome err inst c ?r"
    using Suc.prems by (intro ReconcileWithRetry_failure) simp_all
  have st: "lookup req (objects (snd ?r)) = Some ?i"
    using Suc.prems by (intro failing_attempt_stored) simp_all
  have kept: "stored_after ?i = Some ?i"
    using Suc.prems(4) by (rule stored_after_set_annotation)
  have first: "fst ?r = (if 10 < sint (?n + 1) then (Result_empty, Some err)
                        else (\<lparr>Requeue = False, RequeueAfter = backoff ?n\<rparr>, None))"
    using out by (simp add: retry_outcome_def Let_def split: if_splits)
  have faults': "\<forall>i. faults (snd ?r) i = None"
    using Suc.prems(1) by (simp add: ReconcileWithRetry_faults)
  have rest: "fst (attempts k logic req (snd ?r)) =
     map (\<lambda>j. if 10 < sint (?n + 1 + of_nat j + 1)
               then (Result_empty, Some err)
               else (\<lparr>Requeue = False, RequeueAfter = backoff (?n + 1 + of_nat j)\<rparr>, None))
       [0..<k]"
    using Suc.IH [OF faults' Suc.prems(2) st kept] by simp
  have "fst (attempts (Suc k) logic req c) = fst ?r # fst (attempts k logic req (snd ?r))"
    by (simp add: case_prod_beta)
  also have "\<dots> =
     map (\<lambda>j. if 10 < sint (?n + of_nat j + 1)
               then (Result_empty, Some err)
               else (\<lparr>Requeue = False, RequeueAfter = backoff (?n + of_nat j)\<rparr>, None))
       (0 # map Suc [0..<k])"
    by (simp add: first rest add.commute add.left_commute del: upt_Suc)
  also have "0 # map Suc [0..<k] = [0..<Suc k]"
    by (simp add: map_Suc_upt upt_conv_Cons del: upt_Suc)
  finally show ?case .
qed

text \<open>
  From a count that is not negative, every attempt of a run of failing attempts is
  requeued, however long the run, up to the largest count of 64 bits.
\<close>

lemma failing_run_requeued:
  assumes "\<forall>i. faults c i = None" and "\<forall>obj. logic obj = Some err"
    and "lookup req (objects c) = Some inst" and "stored_after inst = Some inst"
    and "0 \<le> sint (read_retryCount inst)"
    and "sint (read_retryCount inst) + int k \<le> 2 ^ 63 - 1"
  shows "list_all requeued (fst (attempts k logic req c))"
  using assms
proof (induction k arbitrary: c inst)
  case 0
  then show ?case by simp
next
  case (Suc k)
  let ?n = "read_retryCount inst"
  let ?r = "ReconcileWithRetry logic req c"
  let ?i = "set_annotation inst retryCountKey (Sprintf_d (?n + 1))"
  have head: "requeued (fst ?r)"
    using Suc.prems failing_attempt_requeued [of req c inst logic err] by simp
  have st: "lookup req (objects (snd ?r)) = Some ?i"
    using Suc.prems by (intro failing_attempt_stored) simp_all
  have kept: "stored_after ?i = Some ?i"
    using Suc.prems(4) by (rule stored_after_set_annotation)
  have faults': "\<forall>i. faults (snd ?r) i = None"
    using Suc.prems(1) by (simp add: ReconcileWithRetry_faults)
  have next_count: "sint (?n + 1) = sint ?n + 1"
    using Suc.prems(6) by (intro sint_succ) simp
  have "list_all requeued (fst (attempts k logic req (snd ?r)))"
    using Suc.prems(5,6) next_count
    by (intro Suc.IH [OF faults' Suc.prems(2) st kept]) simp_all
  with head show ?case by (simp add: case_prod_beta)
qed

subsection \<open>A count below zero\<close>

lemma read_retryCount_sample: "read_retryCount sample_MyResource = 0"
  by (simp add: read_retryCount_def annotation_def sample_defs)

lemma lookup_with_retryCount:
  "lookup sample_key [with_retryCount rc sample_MyResource] =
     Some (with_retryCount rc sample_MyResource)"
  by (simp add: with_retryCount_def set_annotation_def sample_defs lookup_def key_of_def)

lemma stored_after_with_retryCount:
  "stored_after (with_retryCount rc sample_MyResource) = Some (with_retryCount rc sample_MyResource)"
  by (simp add: with_retryCount_def stored_after_def sample_defs)

lemma read_retryCount_minus_3: "read_retryCount (with_retryCount ''-3'' sample_MyResource) = - 3"
  by (simp add: with_retryCount_def read_retryCount_def Sscanf_d_def SkipSpace.simps
      space_width_def is_digit_def number_def digit_value_def Let_def)

text \<open>
  C2 (the code departs from it). Every failing attempt has to be requeued.
  \<open>ReconcileWithRetry\<close> reads the retry count from an annotation with \<open>%d\<close>, which accepts
  a sign, and computes the delay as \<open>1 << uint(retryCount)\<close> seconds. On an object whose
  annotation holds \<open>-3\<close> the shift count is \<open>2^64 - 3\<close>, the delay is 0, and the failing
  attempt returns \<open>RequeueAfter: 0\<close> with a nil error on the branch that logs
  "reconciliation failed, retrying": the outcome of a finished reconcile, which is not
  requeued. Three failures in a row are dropped in this way; the fourth, at the count
  0, is requeued after one second.
\<close>

theorem negative_count_failure_not_requeued:
  "read_retryCount (with_retryCount ''-3'' sample_MyResource) = - 3 \<and>
   failing (with_retryCount ''-3'' sample_MyResource) = Some (Failure ''unavailable'') \<and>
   fst (ReconcileWithRetry failing sample_key
          (cluster [with_retryCount ''-3'' sample_MyResource] all_served)) =
     (Result_empty, None) \<and>
   \<not> requeued (fst (ReconcileWithRetry failing sample_key
          (cluster [with_retryCount ''-3'' sample_MyResource] all_served))) \<and>
   fst (attempts 4 failing sample_key
          (cluster [with_retryCount ''-3'' sample_MyResource] all_served)) =
     [(Result_empty, None), (Result_empty, None), (Result_empty, None),
      (\<lparr>Requeue = False, RequeueAfter = Second\<rparr>, None)]"
proof -
  let ?i = "with_retryCount ''-3'' sample_MyResource"
  let ?c = "cluster [?i] all_served"
  have served: "\<forall>i. faults ?c i = None"
    and fails: "\<forall>obj :: MyResource. failing obj = Some (Failure ''unavailable'')"
    and lk: "lookup sample_key (objects ?c) = Some ?i"
    by (simp_all add: lookup_with_retryCount cluster_def all_served_def failing_def)
  have negative: "sint (read_retryCount ?i) < 0"
    by (simp add: read_retryCount_minus_3)
  have first: "fst (ReconcileWithRetry failing sample_key ?c) = (Result_empty, None)"
    using served fails lk negative
    by (intro ReconcileWithRetry_negative [where err = "Failure ''unavailable''"]) simp_all
  have not_requeued: "\<not> requeued (Result_empty, None)"
    by (simp add: requeued_def Result_empty_def)
  from attempts_failing [OF served fails lk stored_after_with_retryCount, of 4]
  have run: "fst (attempts 4 failing sample_key ?c) =
     [(Result_empty, None), (Result_empty, None), (Result_empty, None),
      (\<lparr>Requeue = False, RequeueAfter = Second\<rparr>, None)]"
    by (simp add: read_retryCount_minus_3 upt_rec backoff_negative backoff_base Result_empty_def)
  from first not_requeued run show ?thesis
    by (simp add: read_retryCount_minus_3 failing_def)
qed

subsection \<open>Delays and the reset\<close>

text \<open>
  C6 (as amended). For the failure counts \<open>0 \<le> n \<le> 33\<close> the delay computed by
  \<open>ReconcileWithRetry\<close> is \<open>min(2^n seconds, 5 minutes)\<close>, and it does not decrease when
  the count grows. A failing attempt at a count \<open>n \<le> 9\<close> is requeued after this delay,
  without error; a failing attempt at a count from 10 to \<open>2^63 - 2\<close> returns its error
  with the empty result, no delay of its own. A successful attempt on a positive count
  returns a requeue after five minutes and asks for one update that writes the count 0:
  when that update is served, the store holds the object as written, whose count reads
  as 0; when it fails, the failure is dropped and the stored objects are as before. The
  delay at the count 0 is the base delay of one second.
\<close>

theorem backoff_delay_and_reset:
  "(0 \<le> sint n \<and> sint n \<le> 33 \<longrightarrow> sint (backoff n) = capped_delay (nat (sint n))) \<and>
   (0 \<le> sint m \<and> sint m \<le> sint n \<and> sint n \<le> 33 \<longrightarrow> sint (backoff m) \<le> sint (backoff n)) \<and>
   (lookup req (objects c) = Some inst \<and> faults c (length (calls c)) = None \<and>
    logic inst = Some err \<and>
    0 \<le> sint (read_retryCount inst) \<and> sint (read_retryCount inst) \<le> 9 \<longrightarrow>
      fst (ReconcileWithRetry logic req c) =
        (\<lparr>Requeue = False, RequeueAfter = backoff (read_retryCount inst)\<rparr>, None)) \<and>
   (lookup req (objects c) = Some inst \<and> faults c (length (calls c)) = None \<and>
    logic inst = Some err \<and>
    10 \<le> sint (read_retryCount inst) \<and> sint (read_retryCount inst) \<le> 2 ^ 63 - 2 \<longrightarrow>
      fst (ReconcileWithRetry logic req c) = (Result_empty, Some err)) \<and>
   (lookup req (objects c) = Some inst \<and> faults c (length (calls c)) = None \<and>
    logic' inst = None \<and> 0 < sint (read_retryCount inst) \<longrightarrow>
      fst (ReconcileWithRetry logic' req c) =
        (\<lparr>Requeue = False, RequeueAfter = 5 * Minute\<rparr>, None) \<and>
      (case faults c (Suc (length (calls c))) of
         None \<Rightarrow>
           lookup req (objects (snd (ReconcileWithRetry logic' req c))) =
             stored_after (set_annotation inst retryCountKey ''0'')
       | Some updateErr \<Rightarrow>
           objects (snd (ReconcileWithRetry logic' req c)) = objects c)) \<and>
   read_retryCount (set_annotation inst retryCountKey ''0'') = 0 \<and>
   backoff 0 = Second"
proof (intro conjI impI)
  assume "0 \<le> sint n \<and> sint n \<le> 33"
  then show "sint (backoff n) = capped_delay (nat (sint n))"
    by (simp add: backoff_small)
next
  assume "0 \<le> sint m \<and> sint m \<le> sint n \<and> sint n \<le> 33"
  then show "sint (backoff m) \<le> sint (backoff n)"
    by (intro backoff_mono) simp_all
next
  assume "lookup req (objects c) = Some inst \<and> faults c (length (calls c)) = None \<and>
    logic inst = Some err \<and>
    0 \<le> sint (read_retryCount inst) \<and> sint (read_retryCount inst) \<le> 9"
  then show "fst (ReconcileWithRetry logic req c) =
        (\<lparr>Requeue = False, RequeueAfter = backoff (read_retryCount inst)\<rparr>, None)"
    using ReconcileWithRetry_delay [of req c inst logic err] by blast
next
  assume "lookup req (objects c) = Some inst \<and> faults c (length (calls c)) = None \<and>
    logic inst = Some err \<and>
    10 \<le> sint (read_retryCount inst) \<and> sint (read_retryCount inst) \<le> 2 ^ 63 - 2"
  then show "fst (ReconcileWithRetry logic req c) = (Result_empty, Some err)"
    using ReconcileWithRetry_error [of req c inst logic err] by blast
next
  assume "lookup req (objects c) = Some inst \<and> faults c (length (calls c)) = None \<and>
    logic' inst = None \<and> 0 < sint (read_retryCount inst)"
  then show "fst (ReconcileWithRetry logic' req c) =
        (\<lparr>Requeue = False, RequeueAfter = 5 * Minute\<rparr>, None)"
    using ReconcileWithRetry_success(1) [of req c inst logic'] by blast
next
  assume h: "lookup req (objects c) = Some inst \<and> faults c (length (calls c)) = None \<and>
    logic' inst = None \<and> 0 < sint (read_retryCount inst)"
  show "case faults c (Suc (length (calls c))) of
         None \<Rightarrow>
           lookup req (objects (snd (ReconcileWithRetry logic' req c))) =
             stored_after (set_annotation inst retryCountKey ''0'')
       | Some updateErr \<Rightarrow>
           objects (snd (ReconcileWithRetry logic' req c)) = objects c"
  proof (cases "faults c (Suc (length (calls c)))")
    case None
    with h show ?thesis
      using ReconcileWithRetry_success(2) [of req c inst logic'] by simp
  next
    case (Some e)
    with h show ?thesis
      using ReconcileWithRetry_success(3) [of req c inst logic' e] by simp
  qed
next
  show "read_retryCount (set_annotation inst retryCountKey ''0'') = 0" by simp
next
  show "backoff 0 = Second" by (rule backoff_base)
qed

lemma read_retryCount_3: "read_retryCount (with_retryCount ''3'' sample_MyResource) = 3"
  by (simp add: with_retryCount_def read_retryCount_def Sscanf_d_def SkipSpace.simps
      space_width_def is_digit_def number_def digit_value_def Let_def)

lemma read_retryCount_9: "read_retryCount (with_retryCount ''9'' sample_MyResource) = 9"
  by (simp add: with_retryCount_def read_retryCount_def Sscanf_d_def SkipSpace.simps
      space_width_def is_digit_def number_def digit_value_def Let_def)

lemma read_retryCount_10: "read_retryCount (with_retryCount ''10'' sample_MyResource) = 10"
  by (simp add: with_retryCount_def read_retryCount_def Sscanf_d_def SkipSpace.simps
      space_width_def is_digit_def number_def digit_value_def Let_def)

text \<open>
  The delay at the counts 3 and 33; a failure at the stored counts 3 and 10; a success
  at the stored count 3, with the update served and with the update refused; a failure
  that follows the served reset, requeued after the base delay.
\<close>

theorem backoff_delay_and_reset_witness:
  "sint (backoff 3) = capped_delay 3 \<and> capped_delay 3 = 8000000000 \<and>
   sint (backoff 33) = capped_delay 33 \<and> capped_delay 33 = 300000000000 \<and>
   sint (backoff 3) \<le> sint (backoff 33) \<and>
   fst (ReconcileWithRetry failing sample_key
          (cluster [with_retryCount ''3'' sample_MyResource] all_served)) =
     (\<lparr>Requeue = False, RequeueAfter = 8 * Second\<rparr>, None) \<and>
   fst (ReconcileWithRetry failing sample_key
          (cluster [with_retryCount ''10'' sample_MyResource] all_served)) =
     (Result_empty, Some (Failure ''unavailable'')) \<and>
   reconcileLogic (with_retryCount ''3'' sample_MyResource) = None \<and>
   0 < sint (read_retryCount (with_retryCount ''3'' sample_MyResource)) \<and>
   fst (ReconcileWithRetry reconcileLogic sample_key
          (cluster [with_retryCount ''3'' sample_MyResource] all_served)) =
     (\<lparr>Requeue = False, RequeueAfter = 5 * Minute\<rparr>, None) \<and>
   lookup sample_key
     (objects (snd (ReconcileWithRetry reconcileLogic sample_key
        (cluster [with_retryCount ''3'' sample_MyResource] all_served)))) =
     Some (with_retryCount ''0'' sample_MyResource) \<and>
   read_retryCount (with_retryCount ''0'' sample_MyResource) = 0 \<and>
   fst (ReconcileWithRetry failing sample_key
          (snd (ReconcileWithRetry reconcileLogic sample_key
             (cluster [with_retryCount ''3'' sample_MyResource] all_served)))) =
     (\<lparr>Requeue = False, RequeueAfter = Second\<rparr>, None) \<and>
   objects (snd (ReconcileWithRetry reconcileLogic sample_key
        (cluster [with_retryCount ''3'' sample_MyResource] second_request_conflicts))) =
     [with_retryCount ''3'' sample_MyResource]"
proof -
  let ?i = "with_retryCount ''3'' sample_MyResource"
  let ?j = "with_retryCount ''10'' sample_MyResource"
  let ?c = "cluster [?i] all_served"
  let ?d = "cluster [?j] all_served"
  let ?e = "cluster [?i] second_request_conflicts"
  let ?err = "Failure ''unavailable''"
  note t = backoff_delay_and_reset [of 3 3 sample_key ?c ?i failing ?err reconcileLogic]
  note u = backoff_delay_and_reset [of 33 3 sample_key ?d ?j failing ?err reconcileLogic]
  note v = backoff_delay_and_reset [of 33 3 sample_key ?e ?i failing ?err reconcileLogic]
  have h: "lookup sample_key (objects ?c) = Some ?i \<and> faults ?c (length (calls ?c)) = None \<and>
      faults ?c (Suc (length (calls ?c))) = None \<and> failing ?i = Some ?err \<and>
      reconcileLogic ?i = None \<and> read_retryCount ?i = 3"
    by (simp add: lookup_with_retryCount read_retryCount_3 cluster_def all_served_def failing_def
        reconcileLogic_def)
  have h10: "lookup sample_key (objects ?d) = Some ?j \<and> faults ?d (length (calls ?d)) = None \<and>
      failing ?j = Some ?err \<and> read_retryCount ?j = 10"
    by (simp add: lookup_with_retryCount read_retryCount_10 cluster_def all_served_def failing_def)
  have hc: "lookup sample_key (objects ?e) = Some ?i \<and> faults ?e (length (calls ?e)) = None \<and>
      faults ?e (Suc (length (calls ?e))) = Some Conflict \<and>
      reconcileLogic ?i = None \<and> read_retryCount ?i = 3"
    by (simp add: lookup_with_retryCount read_retryCount_3 cluster_def
        second_request_conflicts_def reconcileLogic_def)
  have objs: "objects ?e = [?i]" by (simp add: cluster_def)
  have zero: "stored_after (set_annotation ?i retryCountKey ''0'') =
      Some (with_retryCount ''0'' sample_MyResource)"
    by (simp add: stored_after_def with_retryCount_def set_annotation_def sample_defs)
  from t have a: "sint (backoff 3) = capped_delay 3" by simp
  have b: "capped_delay 3 = 8000000000" "capped_delay 33 = 300000000000"
    by (simp_all add: capped_delay_def)
  from u have a33: "sint (backoff 33) = capped_delay 33" and c: "sint (backoff 3) \<le> sint (backoff 33)"
    by simp_all
  from t h have d: "fst (ReconcileWithRetry failing sample_key ?c) =
      (\<lparr>Requeue = False, RequeueAfter = 8 * Second\<rparr>, None)"
    by (simp add: backoff_def Second_def Minute_def)
  from u h10 have e: "fst (ReconcileWithRetry failing sample_key ?d) = (Result_empty, Some ?err)"
    by simp
  from t h have f: "fst (ReconcileWithRetry reconcileLogic sample_key ?c) =
      (\<lparr>Requeue = False, RequeueAfter = 5 * Minute\<rparr>, None)"
    by simp
  from t h zero have g: "lookup sample_key
        (objects (snd (ReconcileWithRetry reconcileLogic sample_key ?c))) =
      Some (with_retryCount ''0'' sample_MyResource)"
    by simp
  from t have z: "read_retryCount (with_retryCount ''0'' sample_MyResource) = 0"
    by (simp add: with_retryCount_def)
  let ?z = "with_retryCount ''0'' sample_MyResource"
  let ?c' = "snd (ReconcileWithRetry reconcileLogic sample_key ?c)"
  have "faults ?c' (length (calls ?c')) = None"
    by (simp add: ReconcileWithRetry_faults cluster_def all_served_def)
  with g z backoff_delay_and_reset [of 0 0 sample_key ?c' ?z failing ?err reconcileLogic]
  have n: "fst (ReconcileWithRetry failing sample_key ?c') =
      (\<lparr>Requeue = False, RequeueAfter = Second\<rparr>, None)"
    by (simp add: failing_def)
  from v hc have "objects (snd (ReconcileWithRetry reconcileLogic sample_key ?e)) = objects ?e"
    by simp
  with objs have k: "objects (snd (ReconcileWithRetry reconcileLogic sample_key ?e)) = [?i]"
    by simp
  from a b a33 c d e f g z n k h show ?thesis by simp
qed

text \<open>
  Where the claim fails: at the count 10 the failing attempt returns the error and no
  delay, where \<open>min(2^10 seconds, 5 minutes)\<close> is five minutes; at the count 34 the
  product \<open>2^34 * 10^9\<close> wraps at 64 bits and the computed delay is negative; a reset
  whose update is refused leaves the stored count at 3.
\<close>

theorem no_delay_from_count_ten:
  "fst (ReconcileWithRetry failing sample_key
          (cluster [with_retryCount ''9'' sample_MyResource] all_served)) =
     (\<lparr>Requeue = False, RequeueAfter = 5 * Minute\<rparr>, None) \<and>
   fst (ReconcileWithRetry failing sample_key
          (cluster [with_retryCount ''10'' sample_MyResource] all_served)) =
     (\<lparr>Requeue = False, RequeueAfter = 0\<rparr>, Some (Failure ''unavailable'')) \<and>
   capped_delay 10 = 300000000000 \<and>
   sint (backoff 34) = - 1266874889709551616 \<and> capped_delay 34 = 300000000000 \<and>
   reconcileLogic (with_retryCount ''3'' sample_MyResource) = None \<and>
   lookup sample_key
     (objects (snd (ReconcileWithRetry reconcileLogic sample_key
        (cluster [with_retryCount ''3'' sample_MyResource] second_request_conflicts)))) =
     Some (with_retryCount ''3'' sample_MyResource)"
proof -
  let ?c9 = "cluster [with_retryCount ''9'' sample_MyResource] all_served"
  let ?c10 = "cluster [with_retryCount ''10'' sample_MyResource] all_served"
  have "retry_outcome (Failure ''unavailable'') (with_retryCount ''9'' sample_MyResource) ?c9
          (ReconcileWithRetry failing sample_key ?c9)"
    by (intro ReconcileWithRetry_failure)
       (simp_all add: lookup_with_retryCount cluster_def all_served_def failing_def)
  then have a: "fst (ReconcileWithRetry failing sample_key ?c9) =
      (\<lparr>Requeue = False, RequeueAfter = 5 * Minute\<rparr>, None)"
    by (simp add: retry_outcome_def read_retryCount_9 backoff_def Second_def Minute_def)
  have "retry_outcome (Failure ''unavailable'') (with_retryCount ''10'' sample_MyResource) ?c10
          (ReconcileWithRetry failing sample_key ?c10)"
    by (intro ReconcileWithRetry_failure)
       (simp_all add: lookup_with_retryCount cluster_def all_served_def failing_def)
  then have b: "fst (ReconcileWithRetry failing sample_key ?c10) =
      (\<lparr>Requeue = False, RequeueAfter = 0\<rparr>, Some (Failure ''unavailable''))"
    by (simp add: retry_outcome_def read_retryCount_10 Result_empty_def)
  have c: "capped_delay 10 = 300000000000" "capped_delay 34 = 300000000000"
    by (simp_all add: capped_delay_def)
  have w: "sint (backoff 34) = - 1266874889709551616"
    by (simp add: backoff_def Minute_def Second_def)
  have d: "lookup sample_key
     (objects (snd (ReconcileWithRetry reconcileLogic sample_key
        (cluster [with_retryCount ''3'' sample_MyResource] second_request_conflicts)))) =
     Some (with_retryCount ''3'' sample_MyResource)"
    using read_retryCount_3
    by (simp add: ReconcileWithRetry_def Let_def client_defs reconcileLogic_def cluster_def
        second_request_conflicts_def with_retryCount_def set_annotation_def sample_meta_def
        sample_MyResource_def sample_key_def)
  from a b c w d show ?thesis by (simp add: reconcileLogic_def)
qed

end
